theory Spec2Isabelle
  imports Complex_Main
begin

section \<open>Matrices\<close>

text \<open>
  The operators of the package are numpy arrays and scipy sparse matrices with float64 or
  complex128 entries. A matrix is modelled by its shape and its entries; floats are
  modelled by exact reals and complex floats by exact complex numbers. Every operation
  below builds its result with \<open>mk_mat\<close>, so the entry function of a result is zero
  outside the shape and two results are equal exactly when shape and entries agree.

  Arithmetic faults of floating point (a zero divisor, the square root or the fractional
  power of a negative number, overflow) have no counterpart over the reals. They are kept
  out by the hypothesis \<open>valid_params\<close> (the parameter ranges of the data model) and by
  explicit side conditions on divisors; no theorem below speaks about a point where the
  source divides by zero. A sum takes its shape from its left operand and a product from
  the rows of the left and the columns of the right operand, as numpy does when the
  shapes fit; the shape lemmas below give the shapes of the operands that the source
  adds or multiplies. Explicit \<open>raise\<close> statements, and the rejection of
  \<open>sparse - scalar\<close> by the sparse matrix library, are branches of the model.
\<close>

datatype cmat = Mat (nrows: nat) (ncols: nat) (entry: "nat \<Rightarrow> nat \<Rightarrow> complex")

definition mk_mat :: "nat \<Rightarrow> nat \<Rightarrow> (nat \<Rightarrow> nat \<Rightarrow> complex) \<Rightarrow> cmat" where
  "mk_mat r c f = Mat r c (\<lambda>i j. if i < r \<and> j < c then f i j else 0)"

text \<open>\<open>A + B\<close>, \<open>A - B\<close>, \<open>-A\<close>, \<open>c * A\<close> (also written \<open>A * c\<close>) and \<open>A / c\<close>.\<close>

definition madd :: "cmat \<Rightarrow> cmat \<Rightarrow> cmat" where
  "madd A B = mk_mat (nrows A) (ncols A) (\<lambda>i j. entry A i j + entry B i j)"

definition msub :: "cmat \<Rightarrow> cmat \<Rightarrow> cmat" where
  "msub A B = mk_mat (nrows A) (ncols A) (\<lambda>i j. entry A i j - entry B i j)"

definition mneg :: "cmat \<Rightarrow> cmat" where
  "mneg A = mk_mat (nrows A) (ncols A) (\<lambda>i j. - entry A i j)"

definition smult :: "complex \<Rightarrow> cmat \<Rightarrow> cmat" where
  "smult c A = mk_mat (nrows A) (ncols A) (\<lambda>i j. c * entry A i j)"

definition sdiv :: "cmat \<Rightarrow> complex \<Rightarrow> cmat" where
  "sdiv A c = mk_mat (nrows A) (ncols A) (\<lambda>i j. entry A i j / c)"

text \<open>The matrix product, and \<open>A ** 2\<close> of a sparse matrix, which is the matrix square.\<close>

definition mmul :: "cmat \<Rightarrow> cmat \<Rightarrow> cmat" where
  "mmul A B = mk_mat (nrows A) (ncols B) (\<lambda>i j. \<Sum>k<ncols A. entry A i k * entry B k j)"

definition mpow2 :: "cmat \<Rightarrow> cmat" where
  "mpow2 A = mmul A A"

text \<open>\<open>A.T\<close> and \<open>A.conj().T\<close>.\<close>

definition mtranspose :: "cmat \<Rightarrow> cmat" where
  "mtranspose A = mk_mat (ncols A) (nrows A) (\<lambda>i j. entry A j i)"

definition conj_T :: "cmat \<Rightarrow> cmat" where
  "conj_T A = mk_mat (ncols A) (nrows A) (\<lambda>i j. cnj (entry A j i))"

text \<open>\<open>sparse.kron(A, B)\<close>: the block matrix whose block \<open>(a, b)\<close> is \<open>A[a, b] * B\<close>.\<close>

definition kron :: "cmat \<Rightarrow> cmat \<Rightarrow> cmat" where
  "kron A B = mk_mat (nrows A * nrows B) (ncols A * ncols B)
     (\<lambda>i j. entry A (i div nrows B) (j div ncols B) * entry B (i mod nrows B) (j mod ncols B))"

text \<open>\<open>sparse.eye(n)\<close>.\<close>

definition eye :: "nat \<Rightarrow> cmat" where
  "eye n = mk_mat n n (\<lambda>i j. if i = j then 1 else 0)"

text \<open>
  \<open>dia_matrix((data, [offset]), shape=(r, c))\<close>: the diagonal \<open>j - i = offset\<close> holds
  \<open>data[j]\<close> in column \<open>j\<close>. \<open>np.diagflat(data)\<close>: the square matrix with \<open>data\<close> on its
  main diagonal.
\<close>

definition dia_matrix :: "real list \<Rightarrow> int \<Rightarrow> nat \<Rightarrow> nat \<Rightarrow> cmat" where
  "dia_matrix data offset r c =
     mk_mat r c (\<lambda>i j. if int j - int i = offset \<and> j < length data
                        then complex_of_real (data ! j) else 0)"

definition diagflat :: "real list \<Rightarrow> cmat" where
  "diagflat data =
     mk_mat (length data) (length data) (\<lambda>i j. if i = j then complex_of_real (data ! i) else 0)"

definition mzero :: "nat \<Rightarrow> nat \<Rightarrow> cmat" where
  "mzero r c = mk_mat r c (\<lambda>i j. 0)"

text \<open>A matrix is well formed when its entry function vanishes outside its shape.\<close>

definition wf_mat :: "cmat \<Rightarrow> bool" where
  "wf_mat A \<longleftrightarrow> (\<forall>i j. \<not> (i < nrows A \<and> j < ncols A) \<longrightarrow> entry A i j = 0)"

definition hermitian :: "cmat \<Rightarrow> bool" where
  "hermitian A \<longleftrightarrow> conj_T A = A"

text \<open>
  The derivative of a matrix-valued function of one real parameter, entry by entry:
  \<open>D\<close> has the shape of \<open>F x\<close> and each entry of \<open>D\<close> is the derivative at \<open>x\<close> of the
  same entry of \<open>F\<close>.
\<close>

definition mat_deriv :: "(real \<Rightarrow> cmat) \<Rightarrow> cmat \<Rightarrow> real \<Rightarrow> bool" where
  "mat_deriv F D x \<longleftrightarrow>
     nrows D = nrows (F x) \<and> ncols D = ncols (F x) \<and>
     (\<forall>i j. ((\<lambda>t. entry (F t) i j) has_vector_derivative entry D i j) (at x))"

section \<open>operators.py\<close>

text \<open>
  \<open>annihilation_sparse\<close>: \<open>sqrt(range(dimension))\<close> on the first superdiagonal;
  \<open>creation_sparse\<close> is its transpose.
\<close>

definition annihilation_sparse :: "nat \<Rightarrow> cmat" where
  "annihilation_sparse dimension =
     dia_matrix (map (\<lambda>k. sqrt (real k)) [0..<dimension]) 1 dimension dimension"

definition creation_sparse :: "nat \<Rightarrow> cmat" where
  "creation_sparse dimension = mtranspose (annihilation_sparse dimension)"

text \<open>
  \<open>number\<close> and \<open>number_sparse\<close>. The prefactor is \<open>None\<close>, a float or a complex number
  (\<open>Optional[Union[float, complex]]\<close>), and \<open>if prefactor:\<close> holds for a number exactly when
  it is not zero. The diagonal is \<open>np.arange(dimension, dtype=float64)\<close>; the in-place
  product \<open>diag_elements *= prefactor\<close> of a float64 array scales it by a float and raises
  \<open>UFuncTypeError\<close> for a complex number, whose product cannot be stored in the array.
\<close>

datatype py_number = PyFloat real | PyComplex complex

datatype error =
    RuntimeError string
  | NotImplementedError
  | UFuncTypeError
  | ValueError
  | IndexError
  | CollaboratorError string

definition arange :: "nat \<Rightarrow> real list" where
  "arange dimension = map real [0..<dimension]"

definition truthy :: "py_number option \<Rightarrow> bool" where
  "truthy prefactor =
     (case prefactor of
        None \<Rightarrow> False
      | Some (PyFloat x) \<Rightarrow> x \<noteq> 0
      | Some (PyComplex z) \<Rightarrow> z \<noteq> 0)"

definition imul_float64 :: "real list \<Rightarrow> py_number \<Rightarrow> error + real list" where
  "imul_float64 diag_elements prefactor =
     (case prefactor of
        PyFloat x \<Rightarrow> Inr (map (\<lambda>d. d * x) diag_elements)
      | PyComplex z \<Rightarrow> Inl UFuncTypeError)"

definition number :: "nat \<Rightarrow> py_number option \<Rightarrow> error + cmat" where
  "number dimension prefactor =
     (let diag_elements = arange dimension
      in if truthy prefactor
         then (case imul_float64 diag_elements (the prefactor) of
                 Inl e \<Rightarrow> Inl e
               | Inr diag_elements \<Rightarrow> Inr (diagflat diag_elements))
         else Inr (diagflat diag_elements))"

definition number_sparse :: "nat \<Rightarrow> py_number option \<Rightarrow> error + cmat" where
  "number_sparse dimension prefactor =
     (let diag_elements = arange dimension
      in if truthy prefactor
         then (case imul_float64 diag_elements (the prefactor) of
                 Inl e \<Rightarrow> Inl e
               | Inr diag_elements \<Rightarrow> Inr (dia_matrix diag_elements 0 dimension dimension))
         else Inr (dia_matrix diag_elements 0 dimension dimension))"

text \<open>
  \<open>hamiltonian\<close> calls \<open>number_sparse\<close> with the floats that \<open>phi_plasma()\<close> and
  \<open>zeta_plasma()\<close> return. On a float prefactor \<open>number_sparse\<close> cannot raise;
  \<open>number_sparse_float\<close> is the matrix it returns there (lemma \<open>number_sparse_on_float\<close>).
\<close>

definition number_sparse_float :: "nat \<Rightarrow> real \<Rightarrow> cmat" where
  "number_sparse_float dimension prefactor =
     (let diag_elements = arange dimension;
          diag_elements = (if prefactor \<noteq> 0
                           then map (\<lambda>d. d * prefactor) diag_elements
                           else diag_elements)
      in dia_matrix diag_elements 0 dimension dimension)"

section \<open>cos2phi_qubit.py: parameters and scalars\<close>

record qubit =
  EJ :: real
  ECJ :: real
  EL :: real
  EC :: real
  dL :: real
  dCJ :: real
  dEJ :: real
  flux :: real
  ng :: real
  ncut :: int
  zeta_cut :: int
  phi_cut :: int
  truncated_dim :: int

text \<open>
  The parameter ranges of the data model: positive energies, disorder fractions of
  magnitude below one, a nonnegative charge cutoff and positive oscillator basis sizes.
\<close>

definition valid_params :: "qubit \<Rightarrow> bool" where
  "valid_params p \<longleftrightarrow>
     0 < EJ p \<and> 0 < ECJ p \<and> 0 < EL p \<and> 0 < EC p \<and>
     \<bar>dL p\<bar> < 1 \<and> \<bar>dCJ p\<bar> < 1 \<and> \<bar>dEJ p\<bar> < 1 \<and>
     0 \<le> ncut p \<and> 0 < zeta_cut p \<and> 0 < phi_cut p \<and> 1 < truncated_dim p"

text \<open>\<open>default_params()\<close>, with the constructor's default \<open>truncated_dim = 6\<close>.\<close>

definition default_params :: qubit where
  "default_params =
     \<lparr>EJ = 15.0, ECJ = 2.0, EL = 1.0, EC = 0.04, dL = 0.6, dCJ = 0.0, dEJ = 0.0,
      flux = 0.5, ng = 0.0, ncut = 7, zeta_cut = 30, phi_cut = 7, truncated_dim = 6\<rparr>"

definition supported_noise_channels :: "string list" where
  "supported_noise_channels =
     [''tphi_1_over_f_cc'', ''tphi_1_over_f_flux'', ''tphi_1_over_f_ng'',
      ''t1_capacitive'', ''t1_inductive'', ''t1_purcell'']"

definition priv_dim_phi :: "qubit \<Rightarrow> int" where
  "priv_dim_phi p = phi_cut p"

definition priv_dim_zeta :: "qubit \<Rightarrow> int" where
  "priv_dim_zeta p = zeta_cut p"

definition priv_dim_theta :: "qubit \<Rightarrow> int" where
  "priv_dim_theta p = 2 * ncut p + 1"

definition hilbertdim :: "qubit \<Rightarrow> int" where
  "hilbertdim p = priv_dim_phi p * priv_dim_zeta p * priv_dim_theta p"

definition priv_disordered_el :: "qubit \<Rightarrow> real" where
  "priv_disordered_el p = EL p / (1 - (dL p)\<^sup>2)"

definition priv_disordered_ecj :: "qubit \<Rightarrow> real" where
  "priv_disordered_ecj p = ECJ p / (1 - (dCJ p)\<^sup>2)"

definition phi_osc :: "qubit \<Rightarrow> real" where
  "phi_osc p = (2 * priv_disordered_ecj p / priv_disordered_el p) powr 0.25"

definition zeta_osc :: "qubit \<Rightarrow> real" where
  "zeta_osc p = (4 * EC p / priv_disordered_el p) powr 0.25"

definition phi_plasma :: "qubit \<Rightarrow> real" where
  "phi_plasma p = sqrt (8.0 * priv_disordered_el p * priv_disordered_ecj p)"

definition zeta_plasma :: "qubit \<Rightarrow> real" where
  "zeta_plasma p = sqrt (16.0 * EC p * priv_disordered_el p)"

section \<open>Collaborators\<close>

text \<open>
  The qubit class calls code that is not part of these sources: the matrix exponential
  of the sparse linear algebra library (\<open>expm\<close>), the thermal ratio and the golden-rule
  rate integrator of the noise module (\<open>calc_therm_ratio\<close>, \<open>t1\<close>), the units conversion
  (\<open>to_standard_units\<close>), the modified Bessel function (\<open>kv\<close>), the harmonic-oscillator
  eigenfunction (\<open>harm_osc_wavefunction\<close>, evaluated at one coordinate) and the cached
  eigensolver of the base class (\<open>eigensys\<close>). They are parameters of the model. The rate
  integrator may fail; its failure is a message on the left.
\<close>

record collaborators =
  expm :: "cmat \<Rightarrow> cmat"
  calc_therm_ratio :: "real \<Rightarrow> real \<Rightarrow> bool \<Rightarrow> real"
  to_standard_units :: "real \<Rightarrow> real"
  kv :: "real \<Rightarrow> real \<Rightarrow> real"
  t1 :: "int \<Rightarrow> int \<Rightarrow> cmat \<Rightarrow> (real \<Rightarrow> real \<Rightarrow> real) \<Rightarrow> bool
          \<Rightarrow> (real list \<times> cmat) option \<Rightarrow> bool \<Rightarrow> string + real"
  harm_osc_wavefunction :: "int \<Rightarrow> real \<Rightarrow> real \<Rightarrow> real"
  eigensys :: "int \<Rightarrow> real list \<times> cmat"

text \<open>The contract of \<open>expm\<close> that the qubit relies on: the result has the shape of the argument.\<close>

definition expm_keeps_shape :: "collaborators \<Rightarrow> bool" where
  "expm_keeps_shape ext \<longleftrightarrow>
     (\<forall>M. nrows (expm ext M) = nrows M \<and> ncols (expm ext M) = ncols M)"

text \<open>
  A concrete choice of the collaborators, at which theorems are instantiated: the
  first-order truncation \<open>I + M\<close> of the exponential series, the thermal ratio in units
  with \<open>\<hbar> = k\<^sub>B = 1\<close>, the identity as units conversion, a unit rate, a Gaussian
  and an eigensolver that returns a single unit vector.
\<close>

definition sample_collaborators :: collaborators where
  "sample_collaborators =
     \<lparr>expm = (\<lambda>M. madd (mk_mat (nrows M) (ncols M) (\<lambda>i j. if i = j then 1 else 0)) M),
      calc_therm_ratio = (\<lambda>omega T omega_in_standard_units. omega / T),
      to_standard_units = (\<lambda>omega. omega),
      kv = (\<lambda>v x. exp (- x)),
      t1 = (\<lambda>i j noise_op spectral_density total' esys get_rate. Inr 1),
      harm_osc_wavefunction = (\<lambda>n x l_osc. exp (- (x / l_osc)\<^sup>2 / 2)),
      eigensys = (\<lambda>evals_count. ([], mk_mat 1 1 (\<lambda>i j. 1)))\<rparr>"

text \<open>
  \<open>A - c\<close> for a sparse matrix \<open>A\<close> and a scalar \<open>c\<close>: the sparse matrix library returns a
  copy of \<open>A\<close> when \<open>c == 0\<close> and raises \<open>NotImplementedError\<close> otherwise.
\<close>

definition sparse_sub_scalar :: "cmat \<Rightarrow> real \<Rightarrow> error + cmat" where
  "sparse_sub_scalar A c = (if c = 0 then Inr A else Inl NotImplementedError)"

text \<open>
  Modelled from the spec: \<open>process_op\<close> and \<open>process_hamiltonian\<close> of the qubit base class,
  which is not among the sources. With \<open>energy_esys = False\<close> the native operator is
  returned as it is; with an eigensystem (supplied by the caller, or computed by the
  eigensolver when \<open>energy_esys = True\<close>) the operator is projected, \<open>evecs\<^sup>\<dagger> op evecs\<close>.
\<close>

datatype energy_esys = NativeBasis | EigenBasis cmat

definition process_op :: "cmat \<Rightarrow> energy_esys \<Rightarrow> cmat" where
  "process_op native_op energy_esys =
     (case energy_esys of
        NativeBasis \<Rightarrow> native_op
      | EigenBasis evecs \<Rightarrow> mmul (mmul (conj_T evecs) native_op) evecs)"

definition process_hamiltonian :: "cmat \<Rightarrow> energy_esys \<Rightarrow> cmat" where
  "process_hamiltonian native_hamiltonian energy_esys =
     (case energy_esys of
        NativeBasis \<Rightarrow> native_hamiltonian
      | EigenBasis evecs \<Rightarrow> mmul (mmul (conj_T evecs) native_hamiltonian) evecs)"

section \<open>cos2phi_qubit.py: operators\<close>

definition priv_kron3 :: "cmat \<Rightarrow> cmat \<Rightarrow> cmat \<Rightarrow> cmat" where
  "priv_kron3 mat1 mat2 mat3 = kron (kron mat1 mat2) mat3"

definition priv_identity_phi :: "qubit \<Rightarrow> cmat" where
  "priv_identity_phi p = (let dimension = nat (priv_dim_phi p) in eye dimension)"

definition priv_identity_zeta :: "qubit \<Rightarrow> cmat" where
  "priv_identity_zeta p = (let dimension = nat (priv_dim_zeta p) in eye dimension)"

definition priv_identity_theta :: "qubit \<Rightarrow> cmat" where
  "priv_identity_theta p = (let dimension = nat (priv_dim_theta p) in eye dimension)"

definition total_identity :: "qubit \<Rightarrow> cmat" where
  "total_identity p =
     priv_kron3 (priv_identity_phi p) (priv_identity_zeta p) (priv_identity_theta p)"

definition priv_phi_operator :: "qubit \<Rightarrow> cmat" where
  "priv_phi_operator p =
     (let dimension = nat (priv_dim_phi p)
      in sdiv (smult (complex_of_real (phi_osc p))
                 (madd (creation_sparse dimension) (annihilation_sparse dimension)))
              (complex_of_real (sqrt 2)))"

definition phi_operator :: "qubit \<Rightarrow> energy_esys \<Rightarrow> cmat" where
  "phi_operator p energy_esys =
     (let native = priv_kron3 (priv_phi_operator p) (priv_identity_zeta p) (priv_identity_theta p)
      in process_op native energy_esys)"

definition priv_n_phi_operator :: "qubit \<Rightarrow> cmat" where
  "priv_n_phi_operator p =
     (let dimension = nat (priv_dim_phi p)
      in sdiv (smult \<i> (msub (creation_sparse dimension) (annihilation_sparse dimension)))
              (complex_of_real (phi_osc p * sqrt 2)))"

definition n_phi_operator :: "qubit \<Rightarrow> energy_esys \<Rightarrow> cmat" where
  "n_phi_operator p energy_esys =
     (let native = priv_kron3 (priv_n_phi_operator p) (priv_identity_zeta p) (priv_identity_theta p)
      in process_op native energy_esys)"

definition priv_zeta_operator :: "qubit \<Rightarrow> cmat" where
  "priv_zeta_operator p =
     (let dimension = nat (priv_dim_zeta p)
      in sdiv (smult (complex_of_real (zeta_osc p))
                 (madd (creation_sparse dimension) (annihilation_sparse dimension)))
              (complex_of_real (sqrt 2)))"

definition zeta_operator :: "qubit \<Rightarrow> energy_esys \<Rightarrow> cmat" where
  "zeta_operator p energy_esys =
     (let native = priv_kron3 (priv_identity_phi p) (priv_zeta_operator p) (priv_identity_theta p)
      in process_op native energy_esys)"

definition priv_n_zeta_operator :: "qubit \<Rightarrow> cmat" where
  "priv_n_zeta_operator p =
     (let dimension = nat (priv_dim_zeta p)
      in sdiv (smult \<i> (msub (creation_sparse dimension) (annihilation_sparse dimension)))
              (complex_of_real (zeta_osc p * sqrt 2)))"

definition n_zeta_operator :: "qubit \<Rightarrow> energy_esys \<Rightarrow> cmat" where
  "n_zeta_operator p energy_esys =
     (let native = priv_kron3 (priv_identity_phi p) (priv_n_zeta_operator p) (priv_identity_theta p)
      in process_op native energy_esys)"

definition priv_exp_i_phi_operator :: "collaborators \<Rightarrow> qubit \<Rightarrow> cmat" where
  "priv_exp_i_phi_operator ext p =
     (let exponent = smult \<i> (priv_phi_operator p) in expm ext exponent)"

definition priv_cos_phi_operator :: "collaborators \<Rightarrow> qubit \<Rightarrow> cmat" where
  "priv_cos_phi_operator ext p =
     (let cos_phi_op = smult 0.5 (priv_exp_i_phi_operator ext p)
      in madd cos_phi_op (conj_T cos_phi_op))"

definition priv_sin_phi_operator :: "collaborators \<Rightarrow> qubit \<Rightarrow> cmat" where
  "priv_sin_phi_operator ext p =
     (let sin_phi_op = smult (- \<i> * 0.5) (priv_exp_i_phi_operator ext p)
      in madd sin_phi_op (conj_T sin_phi_op))"

definition priv_n_theta_operator :: "qubit \<Rightarrow> cmat" where
  "priv_n_theta_operator p =
     (let diag_elements = map (\<lambda>k. real_of_int (- ncut p + int k)) [0..<nat (2 * ncut p + 1)]
      in dia_matrix diag_elements 0 (nat (priv_dim_theta p)) (nat (priv_dim_theta p)))"

definition n_theta_operator :: "qubit \<Rightarrow> energy_esys \<Rightarrow> cmat" where
  "n_theta_operator p energy_esys =
     (let native = priv_kron3 (priv_identity_phi p) (priv_identity_zeta p) (priv_n_theta_operator p)
      in process_op native energy_esys)"

definition ones :: "nat \<Rightarrow> real list" where
  "ones n = replicate n 1"

definition priv_cos_theta_operator :: "qubit \<Rightarrow> cmat" where
  "priv_cos_theta_operator p =
     (let n = nat (priv_dim_theta p);
          cos_op = smult 0.5 (dia_matrix (ones n) 1 n n)
      in madd cos_op (smult 0.5 (dia_matrix (ones n) (- 1) n n)))"

definition priv_sin_theta_operator :: "qubit \<Rightarrow> cmat" where
  "priv_sin_theta_operator p =
     (let n = nat (priv_dim_theta p);
          sin_op = smult 0.5 (dia_matrix (ones n) (- 1) n n);
          sin_op = msub sin_op (smult 0.5 (dia_matrix (ones n) 1 n n))
      in smult (- \<i>) sin_op)"

section \<open>cos2phi_qubit.py: Hamiltonian and its derivatives\<close>

definition hamiltonian :: "collaborators \<Rightarrow> qubit \<Rightarrow> energy_esys \<Rightarrow> cmat" where
  "hamiltonian ext p energy_esys =
     (let phi_osc_mat =
            priv_kron3 (number_sparse_float (nat (priv_dim_phi p)) (phi_plasma p))
              (priv_identity_zeta p) (priv_identity_theta p);
          zeta_osc_mat =
            priv_kron3 (priv_identity_phi p)
              (number_sparse_float (nat (priv_dim_zeta p)) (zeta_plasma p))
              (priv_identity_theta p);
          cross_kinetic_mat =
            smult (complex_of_real (2 * priv_disordered_ecj p))
              (mpow2 (msub (msub (n_theta_operator p NativeBasis)
                                 (smult (complex_of_real (ng p)) (total_identity p)))
                           (n_zeta_operator p NativeBasis)));
          phi_flux_term =
            msub (smult (complex_of_real (cos (flux p * pi))) (priv_cos_phi_operator ext p))
                 (smult (complex_of_real (sin (flux p * pi))) (priv_sin_phi_operator ext p));
          junction_mat =
            madd (smult (complex_of_real (- 2 * EJ p))
                    (priv_kron3 phi_flux_term (priv_identity_zeta p) (priv_cos_theta_operator p)))
                 (smult (complex_of_real (2 * EJ p)) (total_identity p));
          disorder_l =
            smult (complex_of_real (- 2 * priv_disordered_el p * dL p))
              (priv_kron3 (priv_phi_operator p) (priv_zeta_operator p) (priv_identity_theta p));
          dis_phi_flux_term =
            madd (smult (complex_of_real (cos (flux p * pi))) (priv_sin_phi_operator ext p))
                 (smult (complex_of_real (sin (flux p * pi))) (priv_cos_phi_operator ext p));
          disorder_j =
            smult (complex_of_real (2 * EJ p * dEJ p))
              (priv_kron3 dis_phi_flux_term (priv_identity_zeta p) (priv_sin_theta_operator p));
          dis_c_opt =
            msub (msub (priv_kron3 (priv_n_phi_operator p) (priv_identity_zeta p)
                          (priv_n_theta_operator p))
                       (smult (complex_of_real (ng p)) (n_phi_operator p NativeBasis)))
                 (priv_kron3 (priv_n_phi_operator p) (priv_n_zeta_operator p)
                    (priv_identity_theta p));
          disorder_c = smult (complex_of_real (- 4 * priv_disordered_ecj p * dCJ p)) dis_c_opt;
          hamiltonian_mat =
            madd (madd (madd (madd (madd (madd phi_osc_mat zeta_osc_mat) cross_kinetic_mat)
                                   junction_mat)
                             disorder_l)
                       disorder_j)
                 disorder_c;
          native = hamiltonian_mat
      in process_hamiltonian native energy_esys)"

definition d_hamiltonian_d_flux :: "collaborators \<Rightarrow> qubit \<Rightarrow> energy_esys \<Rightarrow> cmat" where
  "d_hamiltonian_d_flux ext p energy_esys =
     (let phi_flux_term =
            madd (smult (complex_of_real (cos (flux p * pi))) (priv_sin_phi_operator ext p))
                 (smult (complex_of_real (sin (flux p * pi))) (priv_cos_phi_operator ext p));
          junction_mat =
            smult (complex_of_real pi)
              (smult (complex_of_real (2 * EJ p))
                 (priv_kron3 phi_flux_term (priv_identity_zeta p) (priv_cos_theta_operator p)));
          dis_phi_flux_term =
            msub (smult (complex_of_real (cos (flux p * pi))) (priv_cos_phi_operator ext p))
                 (smult (complex_of_real (sin (flux p * pi))) (priv_sin_phi_operator ext p));
          dis_junction_mat =
            smult (complex_of_real pi)
              (smult (complex_of_real (2 * dEJ p * EJ p))
                 (priv_kron3 dis_phi_flux_term (priv_identity_zeta p)
                    (priv_sin_theta_operator p)));
          native = madd junction_mat dis_junction_mat
      in process_op native energy_esys)"

definition d_hamiltonian_d_EJ :: "collaborators \<Rightarrow> qubit \<Rightarrow> energy_esys \<Rightarrow> cmat" where
  "d_hamiltonian_d_EJ ext p energy_esys =
     (let phi_flux_term =
            msub (smult (complex_of_real (cos (flux p * pi))) (priv_cos_phi_operator ext p))
                 (smult (complex_of_real (sin (flux p * pi))) (priv_sin_phi_operator ext p));
          junction_mat =
            smult (- 2)
              (priv_kron3 phi_flux_term (priv_identity_zeta p) (priv_cos_theta_operator p));
          dis_phi_flux_term =
            madd (smult (complex_of_real (cos (flux p * pi))) (priv_sin_phi_operator ext p))
                 (smult (complex_of_real (sin (flux p * pi))) (priv_cos_phi_operator ext p));
          dis_junction_mat =
            smult (complex_of_real (2 * dEJ p))
              (priv_kron3 dis_phi_flux_term (priv_identity_zeta p) (priv_sin_theta_operator p));
          native = madd junction_mat dis_junction_mat
      in process_op native energy_esys)"

text \<open>
  \<open>d_hamiltonian_d_ng\<close> evaluates \<open>self.n_theta_operator() - self.ng\<close>, a sparse matrix
  minus a scalar, after the first summand and before \<open>n_zeta_operator()\<close>.
\<close>

definition d_hamiltonian_d_ng :: "qubit \<Rightarrow> energy_esys \<Rightarrow> error + cmat" where
  "d_hamiltonian_d_ng p energy_esys =
     (let first = smult (complex_of_real (4 * dCJ p * priv_disordered_ecj p))
                    (n_phi_operator p NativeBasis)
      in case sparse_sub_scalar (n_theta_operator p NativeBasis) (ng p) of
           Inl e \<Rightarrow> Inl e
         | Inr shifted \<Rightarrow>
             (let native =
                    msub first
                      (smult (complex_of_real (4 * priv_disordered_ecj p))
                         (msub shifted (n_zeta_operator p NativeBasis)))
              in Inr (process_op native energy_esys)))"

section \<open>cos2phi_qubit.py: branch operators\<close>

definition phi_1_operator :: "qubit \<Rightarrow> energy_esys \<Rightarrow> cmat" where
  "phi_1_operator p energy_esys =
     (let native = msub (zeta_operator p NativeBasis) (phi_operator p NativeBasis)
      in process_op native energy_esys)"

definition phi_2_operator :: "qubit \<Rightarrow> energy_esys \<Rightarrow> cmat" where
  "phi_2_operator p energy_esys =
     (let native = msub (mneg (zeta_operator p NativeBasis)) (phi_operator p NativeBasis)
      in process_op native energy_esys)"

definition n_1_operator :: "qubit \<Rightarrow> energy_esys \<Rightarrow> cmat" where
  "n_1_operator p energy_esys =
     (let native =
            madd (smult 0.5 (n_phi_operator p NativeBasis))
                 (smult 0.5 (msub (n_theta_operator p NativeBasis) (n_zeta_operator p NativeBasis)))
      in process_op native energy_esys)"

definition n_2_operator :: "qubit \<Rightarrow> energy_esys \<Rightarrow> cmat" where
  "n_2_operator p energy_esys =
     (let native =
            msub (smult 0.5 (n_phi_operator p NativeBasis))
                 (smult 0.5 (msub (n_theta_operator p NativeBasis) (n_zeta_operator p NativeBasis)))
      in process_op native energy_esys)"

section \<open>cos2phi_qubit.py: wavefunction\<close>

text \<open>
  Modelled from the spec: the one-dimensional grid of the discretization module, which is
  not among the sources: a minimum, a maximum and a point count, and \<open>make_linspace\<close>,
  the evenly spaced points from the minimum to the maximum.
\<close>

record grid1d =
  min_val :: real
  max_val :: real
  pt_count :: nat

definition make_linspace :: "grid1d \<Rightarrow> real list" where
  "make_linspace g =
     (if pt_count g = 1 then [min_val g]
      else map (\<lambda>k. min_val g + real k * ((max_val g - min_val g) / real (pt_count g - 1)))
             [0..<pt_count g])"

definition priv_default_phi_grid :: grid1d where
  "priv_default_phi_grid = \<lparr>min_val = - 4 * pi, max_val = 4 * pi, pt_count = 100\<rparr>"

definition priv_default_zeta_grid :: grid1d where
  "priv_default_zeta_grid = \<lparr>min_val = - 4 * pi, max_val = 4 * pi, pt_count = 100\<rparr>"

definition priv_default_theta_grid :: grid1d where
  "priv_default_theta_grid = \<lparr>min_val = - 0.5 * pi, max_val = 1.5 * pi, pt_count = 100\<rparr>"

text \<open>
  Three-dimensional arrays as nested lists: \<open>np.zeros\<close>, \<open>+=\<close>, the product with a scalar,
  and \<open>np.tensordot(a, b, 0)\<close> (the outer product) of two vectors and of a matrix and a
  vector.
\<close>

type_synonym array3 = "complex list list list"

definition zeros3 :: "nat \<Rightarrow> nat \<Rightarrow> nat \<Rightarrow> array3" where
  "zeros3 a b c = replicate a (replicate b (replicate c 0))"

definition add3 :: "array3 \<Rightarrow> array3 \<Rightarrow> array3" where
  "add3 A B = map2 (map2 (map2 (+))) A B"

definition scale3 :: "complex \<Rightarrow> array3 \<Rightarrow> array3" where
  "scale3 c A = map (map (map (\<lambda>x. c * x))) A"

definition tensordot_vv :: "complex list \<Rightarrow> complex list \<Rightarrow> complex list list" where
  "tensordot_vv u v = map (\<lambda>x. map (\<lambda>y. x * y) v) u"

definition tensordot_mv :: "complex list list \<Rightarrow> complex list \<Rightarrow> array3" where
  "tensordot_mv M w = map (map (\<lambda>m. map (\<lambda>z. m * z) w)) M"

text \<open>An array has shape \<open>(a, b, c)\<close>.\<close>

definition shape3 :: "nat \<Rightarrow> nat \<Rightarrow> nat \<Rightarrow> array3 \<Rightarrow> bool" where
  "shape3 a b c A \<longleftrightarrow>
     length A = a \<and> (\<forall>i<a. length (A ! i) = b \<and> (\<forall>j<b. length (A ! i ! j) = c))"

record wavefunction_on_grid =
  gridspec :: "(real \<times> real \<times> nat) list"
  amplitudes :: array3

text \<open>The body of the innermost loop: one basis state added to the running amplitudes.\<close>

definition wavefunction_step ::
  "collaborators \<Rightarrow> qubit \<Rightarrow> (nat \<Rightarrow> nat \<Rightarrow> nat \<Rightarrow> complex)
     \<Rightarrow> real list \<Rightarrow> real list \<Rightarrow> real list \<Rightarrow> nat \<Rightarrow> nat \<Rightarrow> nat \<Rightarrow> array3 \<Rightarrow> array3" where
  "wavefunction_step ext p wavefunc_basis_amplitudes phi_basis_labels zeta_basis_labels
       theta_basis_labels i j k wavefunc_amplitudes =
     (let n_phi = int i; n_zeta = int j; n_theta = int k - ncut p;
          phi_wavefunc_amplitudes =
            map (\<lambda>x. complex_of_real (harm_osc_wavefunction ext n_phi x (phi_osc p)))
              phi_basis_labels;
          zeta_wavefunc_amplitudes =
            map (\<lambda>x. complex_of_real (harm_osc_wavefunction ext n_zeta x (zeta_osc p)))
              zeta_basis_labels;
          theta_wavefunc_amplitudes =
            map (\<lambda>x. exp (- \<i> * of_int n_theta * complex_of_real x)
                        / complex_of_real ((2 * pi) powr 0.5))
              theta_basis_labels
      in add3 wavefunc_amplitudes
           (scale3 (wavefunc_basis_amplitudes i j k)
              (tensordot_mv (tensordot_vv phi_wavefunc_amplitudes zeta_wavefunc_amplitudes)
                 theta_wavefunc_amplitudes)))"

text \<open>
  \<open>wavefunction\<close>. The eigenvectors are the supplied ones, or those of the eigensolver.
  Column \<open>which\<close> is reshaped in row-major order to the three basis indices; numpy raises
  when the column does not exist or its length is not the product of the three
  dimensions.
\<close>

definition wavefunction ::
  "collaborators \<Rightarrow> qubit \<Rightarrow> (real list \<times> cmat) option \<Rightarrow> nat
     \<Rightarrow> grid1d option \<Rightarrow> grid1d option \<Rightarrow> grid1d option \<Rightarrow> error + wavefunction_on_grid" where
  "wavefunction ext p esys which phi_grid zeta_grid theta_grid =
     (let evals_count = max (int which + 1) 3;
          evecs = (case esys of None \<Rightarrow> snd (eigensys ext evals_count) | Some e \<Rightarrow> snd e);
          phi_grid = (case phi_grid of None \<Rightarrow> priv_default_phi_grid | Some g \<Rightarrow> g);
          zeta_grid = (case zeta_grid of None \<Rightarrow> priv_default_zeta_grid | Some g \<Rightarrow> g);
          theta_grid = (case theta_grid of None \<Rightarrow> priv_default_theta_grid | Some g \<Rightarrow> g);
          phi_basis_labels = make_linspace phi_grid;
          zeta_basis_labels = make_linspace zeta_grid;
          theta_basis_labels = make_linspace theta_grid;
          d1 = nat (priv_dim_phi p); d2 = nat (priv_dim_zeta p); d3 = nat (priv_dim_theta p)
      in if \<not> which < ncols evecs then Inl IndexError
         else if nrows evecs \<noteq> d1 * d2 * d3 then Inl ValueError
         else
           (let wavefunc_basis_amplitudes = (\<lambda>i j k. entry evecs ((i * d2 + j) * d3 + k) which);
                wavefunc_amplitudes =
                  fold (\<lambda>i. fold (\<lambda>j. fold (\<lambda>k.
                          wavefunction_step ext p wavefunc_basis_amplitudes
                            phi_basis_labels zeta_basis_labels theta_basis_labels i j k)
                        [0..<d3]) [0..<d2]) [0..<d1]
                    (zeros3 (pt_count phi_grid) (pt_count zeta_grid) (pt_count theta_grid));
                grid3d = [(min_val phi_grid, max_val phi_grid, pt_count phi_grid),
                          (min_val zeta_grid, max_val zeta_grid, pt_count zeta_grid),
                          (min_val theta_grid, max_val theta_grid, pt_count theta_grid)]
            in Inr \<lparr>gridspec = grid3d, amplitudes = wavefunc_amplitudes\<rparr>))"

section \<open>cos2phi_qubit.py: noise channels\<close>

text \<open>A quality factor argument: \<open>None\<close>, a function of the angular frequency, or a number.\<close>

datatype q_factor = QNone | QCallable "real \<Rightarrow> real" | QNumber real

definition t1_inductive_q_ind_fun :: "collaborators \<Rightarrow> q_factor \<Rightarrow> real \<Rightarrow> real \<Rightarrow> real" where
  "t1_inductive_q_ind_fun ext Q_ind T omega =
     (case Q_ind of
        QNone \<Rightarrow>
          (let therm_ratio = \<bar>calc_therm_ratio ext omega T False\<bar>;
               therm_ratio_500MHz = calc_therm_ratio ext (2 * pi * 500000000) T True
           in 500000000
                * (kv ext 0 (1 / 2 * therm_ratio_500MHz) * sinh (1 / 2 * therm_ratio_500MHz))
                / (kv ext 0 (1 / 2 * therm_ratio) * sinh (1 / 2 * therm_ratio)))
      | QCallable f \<Rightarrow> f omega
      | QNumber q \<Rightarrow> q)"

definition t1_inductive_spectral_density1 ::
  "collaborators \<Rightarrow> qubit \<Rightarrow> (real \<Rightarrow> real) \<Rightarrow> real \<Rightarrow> real \<Rightarrow> real" where
  "t1_inductive_spectral_density1 ext p q_ind_fun omega T =
     (let therm_ratio = calc_therm_ratio ext omega T False;
          s = 2 * EL p / (1 - dL p) / q_ind_fun omega
                * (1 / tanh (0.5 * \<bar>therm_ratio\<bar>)) / (1 + exp (- therm_ratio))
      in s * (2 * pi))"

definition t1_inductive_spectral_density2 ::
  "collaborators \<Rightarrow> qubit \<Rightarrow> (real \<Rightarrow> real) \<Rightarrow> real \<Rightarrow> real \<Rightarrow> real" where
  "t1_inductive_spectral_density2 ext p q_ind_fun omega T =
     (let therm_ratio = calc_therm_ratio ext omega T False;
          s = 2 * EL p / (1 + dL p) / q_ind_fun omega
                * (1 / tanh (0.5 * \<bar>therm_ratio\<bar>)) / (1 + exp (- therm_ratio))
      in s * (2 * pi))"

text \<open>
  The T1 methods take the list that \<open>self.supported_noise_channels()\<close> returns when they
  are called. The two rates come from the rate integrator, called with \<open>get_rate = True\<close>.
\<close>

definition t1_inductive ::
  "collaborators \<Rightarrow> string list \<Rightarrow> qubit \<Rightarrow> int \<Rightarrow> int \<Rightarrow> q_factor \<Rightarrow> real \<Rightarrow> bool
     \<Rightarrow> (real list \<times> cmat) option \<Rightarrow> bool \<Rightarrow> error + real" where
  "t1_inductive ext supported p i j Q_ind T total' esys get_rate =
     (if ''t1_inductive'' \<notin> set supported
      then Inl (RuntimeError ''Noise channel 't1_inductive' is not supported in this system.'')
      else
        (let q_ind_fun = t1_inductive_q_ind_fun ext Q_ind T;
             noise_op1 = phi_1_operator p NativeBasis;
             noise_op2 = phi_2_operator p NativeBasis
         in case t1 ext i j noise_op1 (t1_inductive_spectral_density1 ext p q_ind_fun)
                   total' esys True of
              Inl msg \<Rightarrow> Inl (CollaboratorError msg)
            | Inr rate_1 \<Rightarrow>
                (case t1 ext i j noise_op2 (t1_inductive_spectral_density2 ext p q_ind_fun)
                        total' esys True of
                   Inl msg \<Rightarrow> Inl (CollaboratorError msg)
                 | Inr rate_2 \<Rightarrow>
                     Inr (if get_rate then rate_1 + rate_2 else 1 / (rate_1 + rate_2)))))"

definition q_cap_fun :: "collaborators \<Rightarrow> q_factor \<Rightarrow> real \<Rightarrow> real" where
  "q_cap_fun ext Q_cap omega =
     (case Q_cap of
        QNone \<Rightarrow> 1000000 * (2 * pi * 6000000000 / \<bar>to_standard_units ext omega\<bar>) powr 0.7
      | QCallable f \<Rightarrow> f omega
      | QNumber q \<Rightarrow> q)"

definition t1_capacitive_spectral_density1 ::
  "collaborators \<Rightarrow> qubit \<Rightarrow> (real \<Rightarrow> real) \<Rightarrow> real \<Rightarrow> real \<Rightarrow> real" where
  "t1_capacitive_spectral_density1 ext p q_cap omega T =
     (let therm_ratio = calc_therm_ratio ext omega T False;
          s1 = 2 * 8 * ECJ p / (1 - dCJ p) / q_cap omega
                 * (1 / tanh (0.5 * \<bar>therm_ratio\<bar>)) / (1 + exp (- therm_ratio))
      in s1 * (2 * pi))"

definition t1_capacitive_spectral_density2 ::
  "collaborators \<Rightarrow> qubit \<Rightarrow> (real \<Rightarrow> real) \<Rightarrow> real \<Rightarrow> real \<Rightarrow> real" where
  "t1_capacitive_spectral_density2 ext p q_cap omega T =
     (let therm_ratio = calc_therm_ratio ext omega T False;
          s2 = 2 * 8 * ECJ p / (1 + dCJ p) / q_cap omega
                 * (1 / tanh (0.5 * \<bar>therm_ratio\<bar>)) / (1 + exp (- therm_ratio))
      in s2 * (2 * pi))"

definition t1_capacitive ::
  "collaborators \<Rightarrow> string list \<Rightarrow> qubit \<Rightarrow> int \<Rightarrow> int \<Rightarrow> q_factor \<Rightarrow> real \<Rightarrow> bool
     \<Rightarrow> (real list \<times> cmat) option \<Rightarrow> bool \<Rightarrow> error + real" where
  "t1_capacitive ext supported p i j Q_cap T total' esys get_rate =
     (if ''t1_capacitive'' \<notin> set supported
      then Inl (RuntimeError ''Noise channel 't1_capacitive' is not supported in this system.'')
      else
        (let noise_op1 = n_1_operator p NativeBasis;
             noise_op2 = n_2_operator p NativeBasis
         in case t1 ext i j noise_op1
                   (t1_capacitive_spectral_density1 ext p (q_cap_fun ext Q_cap)) total' esys True of
              Inl msg \<Rightarrow> Inl (CollaboratorError msg)
            | Inr rate_1 \<Rightarrow>
                (case t1 ext i j noise_op2
                        (t1_capacitive_spectral_density2 ext p (q_cap_fun ext Q_cap))
                        total' esys True of
                   Inl msg \<Rightarrow> Inl (CollaboratorError msg)
                 | Inr rate_2 \<Rightarrow>
                     Inr (if get_rate then rate_1 + rate_2 else 1 / (rate_1 + rate_2)))))"

definition t1_purcell_spectral_density ::
  "collaborators \<Rightarrow> qubit \<Rightarrow> (real \<Rightarrow> real) \<Rightarrow> real \<Rightarrow> real \<Rightarrow> real" where
  "t1_purcell_spectral_density ext p q_cap omega T =
     (let therm_ratio = calc_therm_ratio ext omega T False;
          s = 2 * 8 * EC p / q_cap omega
                * (1 / tanh (0.5 * \<bar>therm_ratio\<bar>)) / (1 + exp (- therm_ratio))
      in s * (2 * pi))"

definition t1_purcell ::
  "collaborators \<Rightarrow> string list \<Rightarrow> qubit \<Rightarrow> int \<Rightarrow> int \<Rightarrow> q_factor \<Rightarrow> real \<Rightarrow> bool
     \<Rightarrow> (real list \<times> cmat) option \<Rightarrow> bool \<Rightarrow> error + real" where
  "t1_purcell ext supported p i j Q_cap T total' esys get_rate =
     (if ''t1_purcell'' \<notin> set supported
      then Inl (RuntimeError ''Noise channel 't1_purcell' is not supported in this system.'')
      else
        (let noise_op = n_zeta_operator p NativeBasis
         in case t1 ext i j noise_op
                   (t1_purcell_spectral_density ext p (q_cap_fun ext Q_cap)) total' esys get_rate of
              Inl msg \<Rightarrow> Inl (CollaboratorError msg)
            | Inr r \<Rightarrow> Inr r))"

section \<open>Matrix lemmas\<close>

lemma nrows_mk_mat [simp]: "nrows (mk_mat r c f) = r"
  by (simp add: mk_mat_def)
lemma ncols_mk_mat [simp]: "ncols (mk_mat r c f) = c"
  by (simp add: mk_mat_def)
lemma entry_mk_mat: "entry (mk_mat r c f) i j = (if i < r \<and> j < c then f i j else 0)"
  by (simp add: mk_mat_def)

lemma mk_mat_cong:
  assumes "\<And>i j. i < r \<Longrightarrow> j < c \<Longrightarrow> f i j = g i j"
  shows "mk_mat r c f = mk_mat r c g"
  using assms by (auto simp: mk_mat_def fun_eq_iff)

lemma wf_mk_mat [simp]: "wf_mat (mk_mat r c f)"
  by (simp add: wf_mat_def entry_mk_mat)

lemma mat_eqI:
  assumes "wf_mat A" "wf_mat B" "nrows A = nrows B" "ncols A = ncols B"
    and "\<And>i j. i < nrows B \<Longrightarrow> j < ncols B \<Longrightarrow> entry A i j = entry B i j"
  shows "A = B"
proof (rule cmat.expand, intro conjI)
  show "entry A = entry B"
  proof (intro ext)
    fix i j
    show "entry A i j = entry B i j"
    proof (cases "i < nrows B \<and> j < ncols B")
      case True
      then show ?thesis using assms(5) by simp
    next
      case False
      then have "entry A i j = 0" "entry B i j = 0"
        using assms(1-4) by (auto simp: wf_mat_def)
      then show ?thesis by simp
    qed
  qed
qed (use assms in auto)

lemma wf_entry_out: "wf_mat A \<Longrightarrow> \<not> (i < nrows A \<and> j < ncols A) \<Longrightarrow> entry A i j = 0"
  by (auto simp: wf_mat_def)

lemma shape_simps [simp]:
  "nrows (madd A B) = nrows A" "ncols (madd A B) = ncols A"
  "nrows (msub A B) = nrows A" "ncols (msub A B) = ncols A"
  "nrows (mneg A) = nrows A" "ncols (mneg A) = ncols A"
  "nrows (smult c A) = nrows A" "ncols (smult c A) = ncols A"
  "nrows (sdiv A c) = nrows A" "ncols (sdiv A c) = ncols A"
  "nrows (mmul A B) = nrows A" "ncols (mmul A B) = ncols B"
  "nrows (mpow2 A) = nrows A" "ncols (mpow2 A) = ncols A"
  "nrows (mtranspose A) = ncols A" "ncols (mtranspose A) = nrows A"
  "nrows (conj_T A) = ncols A" "ncols (conj_T A) = nrows A"
  "nrows (kron A B) = nrows A * nrows B" "ncols (kron A B) = ncols A * ncols B"
  "nrows (eye n) = n" "ncols (eye n) = n"
  "nrows (dia_matrix data k r c') = r" "ncols (dia_matrix data k r c') = c'"
  "nrows (diagflat data) = length data" "ncols (diagflat data) = length data"
  "nrows (mzero r c') = r" "ncols (mzero r c') = c'"
  by (simp_all add: madd_def msub_def mneg_def smult_def sdiv_def mmul_def mpow2_def
        mtranspose_def conj_T_def kron_def eye_def dia_matrix_def diagflat_def mzero_def)

lemma wf_simps [simp]:
  "wf_mat (madd A B)" "wf_mat (msub A B)" "wf_mat (mneg A)" "wf_mat (smult c A)"
  "wf_mat (sdiv A c)" "wf_mat (mmul A B)" "wf_mat (mpow2 A)" "wf_mat (mtranspose A)"
  "wf_mat (conj_T A)" "wf_mat (kron A B)" "wf_mat (eye n)" "wf_mat (dia_matrix data k r c')"
  "wf_mat (diagflat data)" "wf_mat (mzero r c')"
  by (simp_all add: madd_def msub_def mneg_def smult_def sdiv_def mmul_def mpow2_def
        mtranspose_def conj_T_def kron_def eye_def dia_matrix_def diagflat_def mzero_def)

lemma entry_madd: "entry (madd A B) i j = (if i < nrows A \<and> j < ncols A then entry A i j + entry B i j else 0)"
  by (simp add: madd_def entry_mk_mat)
lemma entry_msub: "entry (msub A B) i j = (if i < nrows A \<and> j < ncols A then entry A i j - entry B i j else 0)"
  by (simp add: msub_def entry_mk_mat)
lemma entry_mneg: "entry (mneg A) i j = (if i < nrows A \<and> j < ncols A then - entry A i j else 0)"
  by (simp add: mneg_def entry_mk_mat)
lemma entry_smult: "entry (smult c A) i j = (if i < nrows A \<and> j < ncols A then c * entry A i j else 0)"
  by (simp add: smult_def entry_mk_mat)
lemma entry_sdiv: "entry (sdiv A c) i j = (if i < nrows A \<and> j < ncols A then entry A i j / c else 0)"
  by (simp add: sdiv_def entry_mk_mat)
lemma entry_mmul: "entry (mmul A B) i j = (if i < nrows A \<and> j < ncols B then (\<Sum>k<ncols A. entry A i k * entry B k j) else 0)"
  by (simp add: mmul_def entry_mk_mat)
lemma entry_conj_T: "entry (conj_T A) i j = (if i < ncols A \<and> j < nrows A then cnj (entry A j i) else 0)"
  by (simp add: conj_T_def entry_mk_mat)
lemma entry_mtranspose: "entry (mtranspose A) i j = (if i < ncols A \<and> j < nrows A then entry A j i else 0)"
  by (simp add: mtranspose_def entry_mk_mat)
lemma entry_kron: "entry (kron A B) i j = (if i < nrows A * nrows B \<and> j < ncols A * ncols B
   then entry A (i div nrows B) (j div ncols B) * entry B (i mod nrows B) (j mod ncols B) else 0)"
  by (simp add: kron_def entry_mk_mat)
lemma entry_eye: "entry (eye n) i j = (if i < n \<and> j < n \<and> i = j then 1 else 0)"
  by (simp add: eye_def entry_mk_mat)
lemma entry_mzero [simp]: "entry (mzero r c) i j = 0"
  by (simp add: mzero_def entry_mk_mat)

lemmas entry_simps = entry_madd entry_msub entry_mneg entry_smult entry_sdiv entry_conj_T
  entry_mtranspose entry_eye

lemma hermitian_square: 
  assumes "hermitian A" shows "ncols A = nrows A"
proof -
  have e: "conj_T A = A" using assms by (simp add: hermitian_def)
  show ?thesis using arg_cong [OF e, of nrows] by simp
qed

lemma hermitian_wf: 
  assumes "hermitian A" shows "wf_mat A"
proof -
  have e: "conj_T A = A" using assms by (simp add: hermitian_def)
  have "wf_mat (conj_T A)" by simp
  then show ?thesis unfolding e .
qed

lemma hermitian_entry:
  assumes "hermitian A" "i < nrows A" "j < nrows A"
  shows "cnj (entry A j i) = entry A i j"
proof -
  have e: "conj_T A = A" using assms by (simp add: hermitian_def)
  have "entry (conj_T A) i j = cnj (entry A j i)"
    using assms(2,3) hermitian_square [OF assms(1)] by (simp add: entry_conj_T)
  then show ?thesis unfolding e by simp
qed

lemma hermitianI:
  assumes "nrows A = ncols A" "wf_mat A"
    and "\<And>i j. i < nrows A \<Longrightarrow> j < nrows A \<Longrightarrow> cnj (entry A j i) = entry A i j"
  shows "hermitian A"
proof -
  have "conj_T A = A"
  proof (rule mat_eqI)
    fix i j assume "i < nrows A" "j < ncols A"
    then show "entry (conj_T A) i j = entry A i j"
      using assms(1) assms(3) [of i j] by (simp add: entry_conj_T)
  qed (use assms(1,2) in simp_all)
  then show ?thesis by (simp add: hermitian_def)
qed

lemma hermitian_madd:
  assumes "hermitian A" "hermitian B" "nrows B = nrows A"
  shows "hermitian (madd A B)"
  using assms hermitian_square [OF assms(1)] hermitian_square [OF assms(2)]
  by (intro hermitianI) (auto simp: entry_madd hermitian_entry)

lemma hermitian_msub:
  assumes "hermitian A" "hermitian B" "nrows B = nrows A"
  shows "hermitian (msub A B)"
  using assms hermitian_square [OF assms(1)] hermitian_square [OF assms(2)]
  by (intro hermitianI) (auto simp: entry_msub hermitian_entry)

lemma hermitian_smult:
  assumes "hermitian A"
  shows "hermitian (smult (complex_of_real r) A)"
  using assms hermitian_square [OF assms(1)]
  by (intro hermitianI) (auto simp: entry_smult hermitian_entry)

lemma hermitian_sdiv:
  assumes "hermitian A"
  shows "hermitian (sdiv A (complex_of_real r))"
  using assms hermitian_square [OF assms(1)]
  by (intro hermitianI) (auto simp: entry_sdiv hermitian_entry)

lemma hermitian_eye: "hermitian (eye n)"
  by (intro hermitianI) (auto simp: entry_eye)

lemma kron_index:
  fixes i :: nat
  assumes "i < a * b"
  shows "i div b < a" "i mod b < b"
proof -
  have b: "0 < b" using assms by (cases b) auto
  show "i div b < a" using assms b by (simp add: less_mult_imp_div_less)
  show "i mod b < b" using b by simp
qed

lemma hermitian_kron:
  assumes "hermitian A" "hermitian B"
  shows "hermitian (kron A B)"
proof (intro hermitianI)
  note sa = hermitian_square [OF assms(1)] and sb = hermitian_square [OF assms(2)]
  show "nrows (kron A B) = ncols (kron A B)" using sa sb by simp
  show "wf_mat (kron A B)" by simp
  fix i j assume "i < nrows (kron A B)" "j < nrows (kron A B)"
  then have i: "i < nrows A * nrows B" and j: "j < nrows A * nrows B" by simp_all
  show "cnj (entry (kron A B) j i) = entry (kron A B) i j"
    using i j sa sb kron_index [OF i] kron_index [OF j]
    by (simp add: entry_kron hermitian_entry [OF assms(1)] hermitian_entry [OF assms(2)])
qed

lemma hermitian_mpow2:
  assumes "hermitian A"
  shows "hermitian (mpow2 A)"
proof (intro hermitianI)
  note sa = hermitian_square [OF assms(1)]
  show "nrows (mpow2 A) = ncols (mpow2 A)" using sa by simp
  show "wf_mat (mpow2 A)" by simp
  fix i j assume "i < nrows (mpow2 A)" "j < nrows (mpow2 A)"
  then have i: "i < nrows A" and j: "j < nrows A" by simp_all
  have "cnj (\<Sum>k<nrows A. entry A j k * entry A k i) = (\<Sum>k<nrows A. entry A i k * entry A k j)"
    unfolding cnj_sum
    by (rule sum.cong) (auto simp: hermitian_entry [OF assms] i j mult.commute)
  then show "cnj (entry (mpow2 A) j i) = entry (mpow2 A) i j"
    using i j sa by (simp add: mpow2_def entry_mmul)
qed

lemma hermitian_self_adjoint_sum:
  assumes "nrows X = ncols X"
  shows "hermitian (madd X (conj_T X))"
  using assms by (intro hermitianI) (auto simp: entry_madd entry_conj_T)

section \<open>Properties of the elementary operators and the noise channels\<close>

text \<open>
  C8. \<open>hilbertdim()\<close> is \<open>phi_cut * zeta_cut * (2 * ncut + 1)\<close> for every parameter set,
  and it is 3150 for the qubit built from \<open>default_params()\<close>.
\<close>

theorem hilbertdim_formula:
  "hilbertdim p = phi_cut p * zeta_cut p * (2 * ncut p + 1) \<and> hilbertdim default_params = 3150"
  by (simp add: hilbertdim_def priv_dim_phi_def priv_dim_zeta_def priv_dim_theta_def
        default_params_def)

lemma number_sparse_on_float:
  "number_sparse dimension (Some (PyFloat x)) = Inr (number_sparse_float dimension x)"
  by (simp add: number_sparse_def number_sparse_float_def truthy_def imul_float64_def Let_def)

text \<open>
  C10, as amended. \<open>number\<close> and \<open>number_sparse\<close> scale the diagonal \<open>0 .. dimension - 1\<close> by
  the prefactor only when the prefactor is truthy: for every nonzero float prefactor the
  result is the prefactor times the plain number operator, and for the prefactor 0
  (the float or the complex zero) both return the plain number operator, the one that
  \<open>None\<close> gives, not the zero matrix.
\<close>

theorem number_prefactor_truthiness:
  "(x \<noteq> 0 \<longrightarrow>
      number d (Some (PyFloat x)) = Inr (smult (complex_of_real x) (diagflat (arange d)))
    \<and> number_sparse d (Some (PyFloat x))
        = Inr (smult (complex_of_real x) (dia_matrix (arange d) 0 d d)))
   \<and> number d None = Inr (diagflat (arange d))
   \<and> number d (Some (PyFloat 0)) = Inr (diagflat (arange d))
   \<and> number d (Some (PyComplex 0)) = Inr (diagflat (arange d))
   \<and> number_sparse d None = Inr (dia_matrix (arange d) 0 d d)
   \<and> number_sparse d (Some (PyFloat 0)) = Inr (dia_matrix (arange d) 0 d d)
   \<and> number_sparse d (Some (PyComplex 0)) = Inr (dia_matrix (arange d) 0 d d)
   \<and> (\<forall>i j. entry (diagflat (arange d)) i j = (if i = j \<and> i < d then of_nat i else 0))
   \<and> (\<forall>i j. entry (dia_matrix (arange d) 0 d d) i j = (if i = j \<and> i < d then of_nat i else 0))
   \<and> nrows (diagflat (arange d)) = d \<and> ncols (diagflat (arange d)) = d
   \<and> nrows (dia_matrix (arange d) 0 d d) = d \<and> ncols (dia_matrix (arange d) 0 d d) = d"
  by (auto simp: number_def number_sparse_def truthy_def imul_float64_def arange_def
       diagflat_def dia_matrix_def smult_def entry_mk_mat intro!: mk_mat_cong)

theorem number_prefactor_truthiness_witness:
  "(2 :: real) \<noteq> 0
   \<and> number 3 (Some (PyFloat 2)) = Inr (smult (complex_of_real 2) (diagflat (arange 3)))
   \<and> number_sparse 3 (Some (PyFloat 2))
       = Inr (smult (complex_of_real 2) (dia_matrix (arange 3) 0 3 3))
   \<and> number 3 (Some (PyFloat 0)) = Inr (diagflat (arange 3))
   \<and> entry (diagflat (arange 3)) 2 2 = 2"
  using number_prefactor_truthiness [of 2 3] by simp

text \<open>
  C10 as stated fails: the nonzero complex prefactor \<open>1j\<close> is truthy, and the in-place
  product of the float64 diagonal with it raises, so neither function returns \<open>1j\<close> times
  the plain number operator.
\<close>

theorem number_complex_prefactor_counterexample:
  "number 3 (Some (PyComplex \<i>)) = Inl UFuncTypeError
   \<and> number 3 (Some (PyComplex \<i>)) \<noteq> Inr (smult \<i> (diagflat (arange 3)))
   \<and> number_sparse 3 (Some (PyComplex \<i>)) = Inl UFuncTypeError
   \<and> number_sparse 3 (Some (PyComplex \<i>)) \<noteq> Inr (smult \<i> (dia_matrix (arange 3) 0 3 3))"
  by (simp add: number_def number_sparse_def truthy_def imul_float64_def Let_def)

text \<open>
  C5. \<open>supported_noise_channels()\<close> returns exactly the six channel names, and each of
  \<open>t1_inductive\<close>, \<open>t1_capacitive\<close>, \<open>t1_purcell\<close> raises the unsupported-channel error
  exactly when its name is not in the list returned at call time; the error is raised
  whatever the collaborators would have computed.
\<close>

theorem unsupported_channel_error:
  "supported_noise_channels =
     [''tphi_1_over_f_cc'', ''tphi_1_over_f_flux'', ''tphi_1_over_f_ng'',
      ''t1_capacitive'', ''t1_inductive'', ''t1_purcell'']
   \<and> ((\<exists>msg. t1_inductive ext s p i j Q T tot esys gr = Inl (RuntimeError msg))
        \<longleftrightarrow> ''t1_inductive'' \<notin> set s)
   \<and> ((\<exists>msg. t1_capacitive ext s p i j Q T tot esys gr = Inl (RuntimeError msg))
        \<longleftrightarrow> ''t1_capacitive'' \<notin> set s)
   \<and> ((\<exists>msg. t1_purcell ext s p i j Q T tot esys gr = Inl (RuntimeError msg))
        \<longleftrightarrow> ''t1_purcell'' \<notin> set s)"
  by (auto simp: supported_noise_channels_def t1_inductive_def t1_capacitive_def t1_purcell_def
        Let_def split: sum.splits)

text \<open>
  C6. \<open>t1_inductive\<close> and \<open>t1_capacitive\<close> obtain two rates from the rate integrator, one
  per inductor or junction operator, and return their sum when \<open>get_rate\<close> is true and the
  reciprocal of their sum otherwise: the rates are added before inverting. The channel
  is supported, both integrator calls return, and the sum is not zero where it is
  inverted.
\<close>

theorem t1_rates_summed:
  "(''t1_inductive'' \<in> set s
      \<and> t1 ext i j (phi_1_operator p NativeBasis)
            (t1_inductive_spectral_density1 ext p (t1_inductive_q_ind_fun ext Q T)) tot esys True
          = Inr rate_1
      \<and> t1 ext i j (phi_2_operator p NativeBasis)
            (t1_inductive_spectral_density2 ext p (t1_inductive_q_ind_fun ext Q T)) tot esys True
          = Inr rate_2
      \<and> (get_rate \<or> rate_1 + rate_2 \<noteq> 0)
    \<longrightarrow> t1_inductive ext s p i j Q T tot esys get_rate
          = Inr (if get_rate then rate_1 + rate_2 else 1 / (rate_1 + rate_2)))
   \<and> (''t1_capacitive'' \<in> set s
      \<and> t1 ext i j (n_1_operator p NativeBasis)
            (t1_capacitive_spectral_density1 ext p (q_cap_fun ext Q)) tot esys True
          = Inr rate_1
      \<and> t1 ext i j (n_2_operator p NativeBasis)
            (t1_capacitive_spectral_density2 ext p (q_cap_fun ext Q)) tot esys True
          = Inr rate_2
      \<and> (get_rate \<or> rate_1 + rate_2 \<noteq> 0)
    \<longrightarrow> t1_capacitive ext s p i j Q T tot esys get_rate
          = Inr (if get_rate then rate_1 + rate_2 else 1 / (rate_1 + rate_2)))"
  by (simp add: t1_inductive_def t1_capacitive_def Let_def)

theorem t1_rates_summed_witness:
  "''t1_inductive'' \<in> set supported_noise_channels
   \<and> ''t1_capacitive'' \<in> set supported_noise_channels
   \<and> t1_inductive sample_collaborators supported_noise_channels default_params 1 0 QNone
        0.015 True None False = Inr (1 / 2)
   \<and> t1_capacitive sample_collaborators supported_noise_channels default_params 1 0 QNone
        0.015 True None False = Inr (1 / 2)"
  using t1_rates_summed [where s = supported_noise_channels and ext = sample_collaborators
      and p = default_params and i = 1 and j = 0 and Q = QNone and T = "0.015" and tot = True
      and esys = None and get_rate = False and ?rate_1.0 = 1 and ?rate_2.0 = 1]
  by (simp add: supported_noise_channels_def sample_collaborators_def)

text \<open>
  C3, as amended. In \<open>t1_capacitive\<close> the spectral density at angular frequency \<open>omega\<close> and
  temperature \<open>T\<close> is \<open>32 \<pi> ECJ / (1 \<mp> dCJ)\<close> divided by \<open>Q_cap(omega)\<close> and multiplied by
  \<open>coth(|therm_ratio| / 2) / (1 + exp(- therm_ratio))\<close>: the source multiplies \<open>2 * 8 * ECJ\<close>
  by \<open>2 \<pi>\<close>, so the prefactor of the two junction contributions is \<open>32 \<pi> ECJ / (1 - dCJ)\<close>
  and \<open>32 \<pi> ECJ / (1 + dCJ)\<close>, not \<open>16 \<pi> ECJ / (1 \<mp> dCJ)\<close>. No divisor is zero.
\<close>

theorem capacitive_spectral_density_prefactor:
  "dCJ p \<noteq> 1 \<and> dCJ p \<noteq> - 1 \<and> q_cap omega \<noteq> 0 \<and> calc_therm_ratio ext omega T False \<noteq> 0
   \<Longrightarrow> t1_capacitive_spectral_density1 ext p q_cap omega T
         = 32 * pi * ECJ p / (1 - dCJ p) / q_cap omega
             * (1 / tanh (\<bar>calc_therm_ratio ext omega T False\<bar> / 2))
             / (1 + exp (- calc_therm_ratio ext omega T False))
     \<and> t1_capacitive_spectral_density2 ext p q_cap omega T
         = 32 * pi * ECJ p / (1 + dCJ p) / q_cap omega
             * (1 / tanh (\<bar>calc_therm_ratio ext omega T False\<bar> / 2))
             / (1 + exp (- calc_therm_ratio ext omega T False))"
  by (simp add: t1_capacitive_spectral_density1_def t1_capacitive_spectral_density2_def Let_def)

theorem capacitive_spectral_density_prefactor_witness:
  "dCJ (default_params\<lparr>dCJ := 0.1\<rparr>) \<noteq> 1 \<and> dCJ (default_params\<lparr>dCJ := 0.1\<rparr>) \<noteq> - 1
   \<and> q_cap_fun sample_collaborators (QNumber 1) 1 \<noteq> 0
   \<and> calc_therm_ratio sample_collaborators 1 1 False \<noteq> 0
   \<and> t1_capacitive_spectral_density1 sample_collaborators (default_params\<lparr>dCJ := 0.1\<rparr>)
         (q_cap_fun sample_collaborators (QNumber 1)) 1 1
       = 32 * pi * ECJ (default_params\<lparr>dCJ := 0.1\<rparr>) / (1 - dCJ (default_params\<lparr>dCJ := 0.1\<rparr>))
           / q_cap_fun sample_collaborators (QNumber 1) 1
           * (1 / tanh (\<bar>calc_therm_ratio sample_collaborators 1 1 False\<bar> / 2))
           / (1 + exp (- calc_therm_ratio sample_collaborators 1 1 False))
   \<and> t1_capacitive_spectral_density2 sample_collaborators (default_params\<lparr>dCJ := 0.1\<rparr>)
         (q_cap_fun sample_collaborators (QNumber 1)) 1 1
       = 32 * pi * ECJ (default_params\<lparr>dCJ := 0.1\<rparr>) / (1 + dCJ (default_params\<lparr>dCJ := 0.1\<rparr>))
           / q_cap_fun sample_collaborators (QNumber 1) 1
           * (1 / tanh (\<bar>calc_therm_ratio sample_collaborators 1 1 False\<bar> / 2))
           / (1 + exp (- calc_therm_ratio sample_collaborators 1 1 False))"
proof -
  have h: "dCJ (default_params\<lparr>dCJ := 0.1\<rparr>) \<noteq> 1 \<and> dCJ (default_params\<lparr>dCJ := 0.1\<rparr>) \<noteq> - 1
     \<and> q_cap_fun sample_collaborators (QNumber 1) 1 \<noteq> 0
     \<and> calc_therm_ratio sample_collaborators 1 1 False \<noteq> 0"
    by (simp add: default_params_def q_cap_fun_def sample_collaborators_def)
  from capacitive_spectral_density_prefactor
      [where p = "default_params\<lparr>dCJ := 0.1\<rparr>" and ext = sample_collaborators
         and q_cap = "q_cap_fun sample_collaborators (QNumber 1)" and omega = 1 and T = 1, OF h] h
  show ?thesis by blast
qed

text \<open>
  C3 as stated fails: with \<open>ECJ = 2\<close>, \<open>dCJ = 0\<close>, \<open>Q_cap = 1\<close> and a thermal ratio of 1
  the first spectral density is \<open>64 \<pi> coth(1/2) / (1 + exp(-1))\<close>, twice the value that
  the prefactor \<open>16 \<pi> ECJ / (1 - dCJ)\<close> gives.
\<close>

theorem capacitive_spectral_density_16pi_counterexample:
  "t1_capacitive_spectral_density1 sample_collaborators default_params
       (q_cap_fun sample_collaborators (QNumber 1)) 1 1
     \<noteq> 16 * pi * ECJ default_params / (1 - dCJ default_params)
          / q_cap_fun sample_collaborators (QNumber 1) 1
          * (1 / tanh (\<bar>calc_therm_ratio sample_collaborators 1 1 False\<bar> / 2))
          / (1 + exp (- calc_therm_ratio sample_collaborators 1 1 False))"
proof -
  have e: "1 + exp (- 1 :: real) \<noteq> 0"
    using exp_gt_zero [of "- 1 :: real"] by linarith
  have t: "tanh (1 / 2 :: real) \<noteq> 0" by simp
  show ?thesis
    using e t
    by (simp add: t1_capacitive_spectral_density1_def Let_def sample_collaborators_def
         default_params_def q_cap_fun_def)
qed

section \<open>Shapes and Hermiticity of the qubit operators\<close>

lemma process_op_native [simp]: "process_op M NativeBasis = M"
  by (simp add: process_op_def)
lemma process_hamiltonian_native [simp]: "process_hamiltonian M NativeBasis = M"
  by (simp add: process_hamiltonian_def)

lemma entry_dia_matrix:
  "entry (dia_matrix data k r c) i j =
     (if i < r \<and> j < c \<and> int j - int i = k \<and> j < length data then complex_of_real (data ! j) else 0)"
  by (simp add: dia_matrix_def entry_mk_mat)

lemma cnj_entry_dia_matrix [simp]:
  "cnj (entry (dia_matrix data k r c) i j) = entry (dia_matrix data k r c) i j"
  by (simp add: entry_dia_matrix)

lemma hermitian_dia_matrix_0: "hermitian (dia_matrix data 0 n n)"
  by (intro hermitianI) (auto simp: entry_dia_matrix)

lemma hermitian_number_sparse: "hermitian (number_sparse_float n pre)"
  by (simp add: number_sparse_float_def Let_def hermitian_dia_matrix_0)

lemma hermitian_transpose_sum:
  assumes "nrows A = ncols A" "\<And>i j. cnj (entry A i j) = entry A i j"
  shows "hermitian (madd (mtranspose A) A)"
  using assms by (intro hermitianI) (auto simp: entry_madd entry_mtranspose)

lemma hermitian_i_transpose_diff:
  assumes "nrows A = ncols A" "\<And>i j. cnj (entry A i j) = entry A i j"
  shows "hermitian (smult \<i> (msub (mtranspose A) A))"
  using assms by (intro hermitianI) (auto simp: entry_smult entry_msub entry_mtranspose algebra_simps)

lemma shape_ladder [simp]:
  "nrows (annihilation_sparse n) = n" "ncols (annihilation_sparse n) = n"
  "nrows (creation_sparse n) = n" "ncols (creation_sparse n) = n"
  "nrows (number_sparse_float n pre) = n" "ncols (number_sparse_float n pre) = n"
  by (simp_all add: annihilation_sparse_def creation_sparse_def number_sparse_float_def Let_def)

lemma hermitian_a_plus_adag: "hermitian (madd (creation_sparse n) (annihilation_sparse n))"
  unfolding creation_sparse_def
  by (rule hermitian_transpose_sum) (simp_all add: annihilation_sparse_def)

lemma hermitian_i_adag_minus_a:
  "hermitian (smult \<i> (msub (creation_sparse n) (annihilation_sparse n)))"
  unfolding creation_sparse_def
  by (rule hermitian_i_transpose_diff) (simp_all add: annihilation_sparse_def)

lemma shape_kron3 [simp]:
  "nrows (priv_kron3 A B C) = nrows A * nrows B * nrows C"
  "ncols (priv_kron3 A B C) = ncols A * ncols B * ncols C"
  "wf_mat (priv_kron3 A B C)"
  by (simp_all add: priv_kron3_def)

lemma hermitian_kron3:
  "hermitian A \<Longrightarrow> hermitian B \<Longrightarrow> hermitian C \<Longrightarrow> hermitian (priv_kron3 A B C)"
  by (simp add: priv_kron3_def hermitian_kron)

lemma shape_sub_ops [simp]:
  "nrows (priv_identity_phi p) = nat (priv_dim_phi p)" "ncols (priv_identity_phi p) = nat (priv_dim_phi p)"
  "nrows (priv_identity_zeta p) = nat (priv_dim_zeta p)" "ncols (priv_identity_zeta p) = nat (priv_dim_zeta p)"
  "nrows (priv_identity_theta p) = nat (priv_dim_theta p)" "ncols (priv_identity_theta p) = nat (priv_dim_theta p)"
  "nrows (priv_phi_operator p) = nat (priv_dim_phi p)" "ncols (priv_phi_operator p) = nat (priv_dim_phi p)"
  "nrows (priv_n_phi_operator p) = nat (priv_dim_phi p)" "ncols (priv_n_phi_operator p) = nat (priv_dim_phi p)"
  "nrows (priv_zeta_operator p) = nat (priv_dim_zeta p)" "ncols (priv_zeta_operator p) = nat (priv_dim_zeta p)"
  "nrows (priv_n_zeta_operator p) = nat (priv_dim_zeta p)" "ncols (priv_n_zeta_operator p) = nat (priv_dim_zeta p)"
  "nrows (priv_n_theta_operator p) = nat (priv_dim_theta p)" "ncols (priv_n_theta_operator p) = nat (priv_dim_theta p)"
  "nrows (priv_cos_theta_operator p) = nat (priv_dim_theta p)" "ncols (priv_cos_theta_operator p) = nat (priv_dim_theta p)"
  "nrows (priv_sin_theta_operator p) = nat (priv_dim_theta p)" "ncols (priv_sin_theta_operator p) = nat (priv_dim_theta p)"
  by (simp_all add: priv_identity_phi_def priv_identity_zeta_def priv_identity_theta_def
        priv_phi_operator_def priv_n_phi_operator_def priv_zeta_operator_def
        priv_n_zeta_operator_def priv_n_theta_operator_def priv_cos_theta_operator_def
        priv_sin_theta_operator_def Let_def)

lemma hermitian_sdiv2:
  assumes "hermitian A"
  shows "hermitian (sdiv A (complex_of_real a * complex_of_real b))"
  using hermitian_sdiv [OF assms, of "a * b"] by simp

lemma hermitian_sub_ops:
  "hermitian (priv_identity_phi p)" "hermitian (priv_identity_zeta p)"
  "hermitian (priv_identity_theta p)"
  "hermitian (priv_phi_operator p)" "hermitian (priv_n_phi_operator p)"
  "hermitian (priv_zeta_operator p)" "hermitian (priv_n_zeta_operator p)"
  "hermitian (priv_n_theta_operator p)"
  by (simp_all add: priv_identity_phi_def priv_identity_zeta_def priv_identity_theta_def
        priv_phi_operator_def priv_n_phi_operator_def priv_zeta_operator_def
        priv_n_zeta_operator_def priv_n_theta_operator_def Let_def
        hermitian_eye hermitian_sdiv hermitian_sdiv2 hermitian_smult hermitian_a_plus_adag
        hermitian_i_adag_minus_a hermitian_dia_matrix_0)

lemma hermitian_cos_theta: "hermitian (priv_cos_theta_operator p)"
  unfolding priv_cos_theta_operator_def Let_def
  by (intro hermitianI) (auto simp: entry_madd entry_smult entry_dia_matrix ones_def)

lemma hermitian_sin_theta: "hermitian (priv_sin_theta_operator p)"
  unfolding priv_sin_theta_operator_def Let_def
  by (intro hermitianI) (auto simp: entry_msub entry_smult entry_dia_matrix ones_def)

lemma shape_exp_i_phi:
  assumes "expm_keeps_shape ext"
  shows "nrows (priv_exp_i_phi_operator ext p) = nat (priv_dim_phi p)"
    "ncols (priv_exp_i_phi_operator ext p) = nat (priv_dim_phi p)"
  using assms by (simp_all add: expm_keeps_shape_def priv_exp_i_phi_operator_def Let_def)

lemma shape_cos_sin_phi:
  assumes "expm_keeps_shape ext"
  shows "nrows (priv_cos_phi_operator ext p) = nat (priv_dim_phi p)"
    "ncols (priv_cos_phi_operator ext p) = nat (priv_dim_phi p)"
    "nrows (priv_sin_phi_operator ext p) = nat (priv_dim_phi p)"
    "ncols (priv_sin_phi_operator ext p) = nat (priv_dim_phi p)"
  using shape_exp_i_phi [OF assms, of p]
  by (simp_all add: priv_cos_phi_operator_def priv_sin_phi_operator_def Let_def)

lemma hermitian_cos_sin_phi:
  assumes "expm_keeps_shape ext"
  shows "hermitian (priv_cos_phi_operator ext p)" "hermitian (priv_sin_phi_operator ext p)"
  using shape_exp_i_phi [OF assms, of p]
  by (simp_all add: priv_cos_phi_operator_def priv_sin_phi_operator_def Let_def
        hermitian_self_adjoint_sum)

lemma shape_full_ops [simp]:
  "nrows (total_identity p) = nat (priv_dim_phi p) * nat (priv_dim_zeta p) * nat (priv_dim_theta p)"
  "ncols (total_identity p) = nat (priv_dim_phi p) * nat (priv_dim_zeta p) * nat (priv_dim_theta p)"
  "nrows (phi_operator p NativeBasis) = nat (priv_dim_phi p) * nat (priv_dim_zeta p) * nat (priv_dim_theta p)"
  "ncols (phi_operator p NativeBasis) = nat (priv_dim_phi p) * nat (priv_dim_zeta p) * nat (priv_dim_theta p)"
  "nrows (n_phi_operator p NativeBasis) = nat (priv_dim_phi p) * nat (priv_dim_zeta p) * nat (priv_dim_theta p)"
  "ncols (n_phi_operator p NativeBasis) = nat (priv_dim_phi p) * nat (priv_dim_zeta p) * nat (priv_dim_theta p)"
  "nrows (zeta_operator p NativeBasis) = nat (priv_dim_phi p) * nat (priv_dim_zeta p) * nat (priv_dim_theta p)"
  "ncols (zeta_operator p NativeBasis) = nat (priv_dim_phi p) * nat (priv_dim_zeta p) * nat (priv_dim_theta p)"
  "nrows (n_zeta_operator p NativeBasis) = nat (priv_dim_phi p) * nat (priv_dim_zeta p) * nat (priv_dim_theta p)"
  "ncols (n_zeta_operator p NativeBasis) = nat (priv_dim_phi p) * nat (priv_dim_zeta p) * nat (priv_dim_theta p)"
  "nrows (n_theta_operator p NativeBasis) = nat (priv_dim_phi p) * nat (priv_dim_zeta p) * nat (priv_dim_theta p)"
  "ncols (n_theta_operator p NativeBasis) = nat (priv_dim_phi p) * nat (priv_dim_zeta p) * nat (priv_dim_theta p)"
  by (simp_all add: total_identity_def phi_operator_def n_phi_operator_def zeta_operator_def
        n_zeta_operator_def n_theta_operator_def Let_def)

lemma wf_full_ops [simp]:
  "wf_mat (total_identity p)" "wf_mat (phi_operator p NativeBasis)"
  "wf_mat (n_phi_operator p NativeBasis)" "wf_mat (zeta_operator p NativeBasis)"
  "wf_mat (n_zeta_operator p NativeBasis)" "wf_mat (n_theta_operator p NativeBasis)"
  by (simp_all add: total_identity_def phi_operator_def n_phi_operator_def zeta_operator_def
        n_zeta_operator_def n_theta_operator_def Let_def)

lemma hermitian_full_ops:
  "hermitian (total_identity p)" "hermitian (phi_operator p NativeBasis)"
  "hermitian (n_phi_operator p NativeBasis)" "hermitian (zeta_operator p NativeBasis)"
  "hermitian (n_zeta_operator p NativeBasis)" "hermitian (n_theta_operator p NativeBasis)"
  by (simp_all add: total_identity_def phi_operator_def n_phi_operator_def zeta_operator_def
        n_zeta_operator_def n_theta_operator_def Let_def hermitian_kron3 hermitian_sub_ops)

lemma half_sum_diff:
  assumes "wf_mat P" "nrows D = nrows P" "ncols D = ncols P"
  shows "madd (madd (smult (1 / 2) P) (smult (1 / 2) D)) (msub (smult (1 / 2) P) (smult (1 / 2) D)) = P"
  by (rule mat_eqI) (use assms in \<open>auto simp: entry_madd entry_msub entry_smult\<close>)

lemma diff_pair_sum:
  assumes "nrows Z = nrows P" "ncols Z = ncols P"
  shows "madd (msub Z P) (msub (mneg Z) P) = smult (- 2) P"
  by (rule mat_eqI) (use assms in \<open>auto simp: entry_madd entry_msub entry_smult entry_mneg\<close>)

text \<open>The Hamiltonian is a square matrix of the total Hilbert space dimension.\<close>

lemma hamiltonian_shape:
  assumes "valid_params p"
  shows "nrows (hamiltonian ext p NativeBasis) = nat (hilbertdim p)"
    "ncols (hamiltonian ext p NativeBasis) = nat (hilbertdim p)"
  using assms
  by (simp_all add: hamiltonian_def Let_def hilbertdim_def valid_params_def nat_mult_distrib
        priv_dim_phi_def priv_dim_zeta_def priv_dim_theta_def)

text \<open>
  C7. For every valid parameter set, in the native basis,
  \<open>n_1_operator + n_2_operator = n_phi_operator\<close> and
  \<open>phi_1_operator + phi_2_operator = - 2 * phi_operator\<close>, exactly.
\<close>

theorem branch_operator_identities:
  "valid_params p \<Longrightarrow>
     madd (n_1_operator p NativeBasis) (n_2_operator p NativeBasis) = n_phi_operator p NativeBasis
   \<and> madd (phi_1_operator p NativeBasis) (phi_2_operator p NativeBasis)
       = smult (- 2) (phi_operator p NativeBasis)"
  by (simp add: n_1_operator_def n_2_operator_def phi_1_operator_def phi_2_operator_def Let_def
        half_sum_diff diff_pair_sum)

lemma valid_default_params: "valid_params default_params"
  by (simp add: valid_params_def default_params_def)

theorem branch_operator_identities_witness:
  "valid_params default_params
   \<and> madd (n_1_operator default_params NativeBasis) (n_2_operator default_params NativeBasis)
       = n_phi_operator default_params NativeBasis
   \<and> madd (phi_1_operator default_params NativeBasis) (phi_2_operator default_params NativeBasis)
       = smult (- 2) (phi_operator default_params NativeBasis)"
  using branch_operator_identities [OF valid_default_params] valid_default_params by blast

text \<open>
  C2. For every valid parameter set, nonzero disorder, flux and offset charge included,
  the native-basis matrix returned by \<open>hamiltonian(False)\<close> equals its own conjugate
  transpose, whatever square matrix the matrix exponential returns.
\<close>

theorem hamiltonian_hermitian:
  assumes e: "expm_keeps_shape ext" and v: "valid_params p"
  shows "conj_T (hamiltonian ext p NativeBasis) = hamiltonian ext p NativeBasis"
proof -
  have "hermitian (hamiltonian ext p NativeBasis)"
    unfolding hamiltonian_def Let_def process_hamiltonian_native
    by (intro hermitian_madd hermitian_msub hermitian_smult hermitian_mpow2 hermitian_kron3
          hermitian_full_ops hermitian_sub_ops hermitian_cos_theta hermitian_sin_theta
          hermitian_cos_sin_phi [OF e] hermitian_number_sparse)
       (simp_all add: shape_cos_sin_phi [OF e])
  then show ?thesis by (simp add: hermitian_def)
qed

lemma sample_expm_keeps_shape: "expm_keeps_shape sample_collaborators"
  by (simp add: expm_keeps_shape_def sample_collaborators_def)

text \<open>A parameter set with every disorder, the flux and the offset charge nonzero.\<close>

lemma valid_disordered_params:
  "valid_params (default_params\<lparr>dCJ := 0.1, dEJ := 0.2, ng := 0.25\<rparr>)"
  by (simp add: valid_params_def default_params_def)

theorem hamiltonian_hermitian_witness:
  "expm_keeps_shape sample_collaborators
   \<and> valid_params (default_params\<lparr>dCJ := 0.1, dEJ := 0.2, ng := 0.25\<rparr>)
   \<and> conj_T (hamiltonian sample_collaborators
         (default_params\<lparr>dCJ := 0.1, dEJ := 0.2, ng := 0.25\<rparr>) NativeBasis)
       = hamiltonian sample_collaborators
           (default_params\<lparr>dCJ := 0.1, dEJ := 0.2, ng := 0.25\<rparr>) NativeBasis"
  using hamiltonian_hermitian [OF sample_expm_keeps_shape valid_disordered_params]
    sample_expm_keeps_shape valid_disordered_params
  by blast

text \<open>
  C4. For a valid parameter set with \<open>ng \<noteq> 0\<close>, \<open>d_hamiltonian_d_ng(False)\<close> returns no
  operator: the subtraction of the nonzero scalar \<open>ng\<close> from the sparse matrix
  \<open>n_theta_operator()\<close> is rejected. The call succeeds only for \<open>ng = 0\<close>, and then it
  returns \<open>4 dCJ ECJ' n_phi - 4 ECJ' (n_theta - n_zeta)\<close> with \<open>ECJ' = ECJ / (1 - dCJ\<^sup>2)\<close>.
\<close>

theorem d_hamiltonian_d_ng_rejects_offset_charge:
  "valid_params p \<Longrightarrow>
     (ng p \<noteq> 0 \<longrightarrow> d_hamiltonian_d_ng p NativeBasis = Inl NotImplementedError)
   \<and> ((\<exists>D. d_hamiltonian_d_ng p NativeBasis = Inr D) \<longleftrightarrow> ng p = 0)
   \<and> (ng p = 0 \<longrightarrow>
        d_hamiltonian_d_ng p NativeBasis
          = Inr (msub (smult (complex_of_real (4 * dCJ p * (ECJ p / (1 - (dCJ p)\<^sup>2))))
                         (n_phi_operator p NativeBasis))
                      (smult (complex_of_real (4 * (ECJ p / (1 - (dCJ p)\<^sup>2))))
                         (msub (n_theta_operator p NativeBasis)
                               (n_zeta_operator p NativeBasis)))))"
  by (simp add: d_hamiltonian_d_ng_def sparse_sub_scalar_def priv_disordered_ecj_def Let_def)

theorem d_hamiltonian_d_ng_rejects_offset_charge_witness:
  "valid_params (default_params\<lparr>dCJ := 0.1, dEJ := 0.2, ng := 0.25\<rparr>)
   \<and> ng (default_params\<lparr>dCJ := 0.1, dEJ := 0.2, ng := 0.25\<rparr>) \<noteq> 0
   \<and> d_hamiltonian_d_ng (default_params\<lparr>dCJ := 0.1, dEJ := 0.2, ng := 0.25\<rparr>) NativeBasis
       = Inl NotImplementedError
   \<and> valid_params default_params \<and> ng default_params = 0
   \<and> (\<exists>D. d_hamiltonian_d_ng default_params NativeBasis = Inr D)"
  using d_hamiltonian_d_ng_rejects_offset_charge [OF valid_disordered_params]
    d_hamiltonian_d_ng_rejects_offset_charge [OF valid_default_params]
    valid_disordered_params valid_default_params
  by (simp add: default_params_def)

section \<open>Derivatives of matrix-valued functions\<close>

lemma mat_derivI:
  assumes "nrows D = nrows (F x)" "ncols D = ncols (F x)"
    and "\<And>i j. ((\<lambda>t. entry (F t) i j) has_vector_derivative entry D i j) (at x)"
  shows "mat_deriv F D x"
  using assms by (simp add: mat_deriv_def)

lemma mat_deriv_entry:
  "mat_deriv F D x \<Longrightarrow> ((\<lambda>t. entry (F t) i j) has_vector_derivative entry D i j) (at x)"
  by (simp add: mat_deriv_def)

lemma mat_deriv_shape:
  "mat_deriv F D x \<Longrightarrow> nrows D = nrows (F x)" "mat_deriv F D x \<Longrightarrow> ncols D = ncols (F x)"
  by (simp_all add: mat_deriv_def)

lemma mat_deriv_eq_rhs: "mat_deriv F D x \<Longrightarrow> D = D' \<Longrightarrow> mat_deriv F D' x"
  by simp

lemma mat_deriv_const: "mat_deriv (\<lambda>t. A) (mzero (nrows A) (ncols A)) x"
  by (rule mat_derivI) simp_all

lemma hvd_guard:
  assumes "P \<Longrightarrow> (f has_vector_derivative d) (at x)"
  shows "((\<lambda>t. if P then f t else 0) has_vector_derivative (if P then d else 0)) (at x)"
  using assms by (cases P) simp_all

lemma mat_deriv_madd:
  assumes F: "mat_deriv F D x" and G: "mat_deriv G E x"
    and r: "\<And>t. nrows (F t) = nrows (F x)" and c: "\<And>t. ncols (F t) = ncols (F x)"
  shows "mat_deriv (\<lambda>t. madd (F t) (G t)) (madd D E) x"
proof (rule mat_derivI)
  define n m where "n = nrows (F x)" and "m = ncols (F x)"
  have s: "\<And>t. nrows (F t) = n" "\<And>t. ncols (F t) = m" "nrows D = n" "ncols D = m"
    unfolding n_def m_def by (rule r, rule c, rule mat_deriv_shape [OF F], rule mat_deriv_shape [OF F])
  fix i j
  show "((\<lambda>t. entry (madd (F t) (G t)) i j) has_vector_derivative entry (madd D E) i j) (at x)"
    apply (simp only: entry_madd s)
    apply (rule hvd_guard)
    using has_vector_derivative_add [OF mat_deriv_entry [OF F, of i j] mat_deriv_entry [OF G, of i j]]
    apply simp
    done
qed (simp_all add: mat_deriv_shape [OF F])

lemma mat_deriv_msub:
  assumes F: "mat_deriv F D x" and G: "mat_deriv G E x"
    and r: "\<And>t. nrows (F t) = nrows (F x)" and c: "\<And>t. ncols (F t) = ncols (F x)"
  shows "mat_deriv (\<lambda>t. msub (F t) (G t)) (msub D E) x"
proof (rule mat_derivI)
  define n m where "n = nrows (F x)" and "m = ncols (F x)"
  have s: "\<And>t. nrows (F t) = n" "\<And>t. ncols (F t) = m" "nrows D = n" "ncols D = m"
    unfolding n_def m_def by (rule r, rule c, rule mat_deriv_shape [OF F], rule mat_deriv_shape [OF F])
  fix i j
  show "((\<lambda>t. entry (msub (F t) (G t)) i j) has_vector_derivative entry (msub D E) i j) (at x)"
    apply (simp only: entry_msub s)
    apply (rule hvd_guard)
    using has_vector_derivative_diff [OF mat_deriv_entry [OF F, of i j] mat_deriv_entry [OF G, of i j]]
    apply simp
    done
qed (simp_all add: mat_deriv_shape [OF F])

lemma mat_deriv_smult:
  assumes F: "mat_deriv F D x"
    and r: "\<And>t. nrows (F t) = nrows (F x)" and c: "\<And>t. ncols (F t) = ncols (F x)"
  shows "mat_deriv (\<lambda>t. smult a (F t)) (smult a D) x"
proof (rule mat_derivI)
  define n m where "n = nrows (F x)" and "m = ncols (F x)"
  have s: "\<And>t. nrows (F t) = n" "\<And>t. ncols (F t) = m" "nrows D = n" "ncols D = m"
    unfolding n_def m_def by (rule r, rule c, rule mat_deriv_shape [OF F], rule mat_deriv_shape [OF F])
  fix i j
  show "((\<lambda>t. entry (smult a (F t)) i j) has_vector_derivative entry (smult a D) i j) (at x)"
    apply (simp only: entry_smult s)
    apply (rule hvd_guard)
    using has_vector_derivative_mult_right [OF mat_deriv_entry [OF F, of i j], of a]
    apply simp
    done
qed (simp_all add: mat_deriv_shape [OF F])

lemma mat_deriv_smult_fun:
  assumes g: "(g has_real_derivative g') (at x)"
  shows "mat_deriv (\<lambda>t. smult (complex_of_real (g t)) A) (smult (complex_of_real g') A) x"
proof (rule mat_derivI)
  fix i j
  show "((\<lambda>t. entry (smult (complex_of_real (g t)) A) i j) has_vector_derivative
          entry (smult (complex_of_real g') A) i j) (at x)"
    apply (simp only: entry_smult)
    apply (rule hvd_guard)
    using has_vector_derivative_mult_left [OF has_vector_derivative_of_real [OF g], of "entry A i j"]
    apply simp
    done
qed simp_all

lemma mat_deriv_kron_left:
  assumes F: "mat_deriv F D x"
    and r: "\<And>t. nrows (F t) = nrows (F x)" and c: "\<And>t. ncols (F t) = ncols (F x)"
  shows "mat_deriv (\<lambda>t. kron (F t) B) (kron D B) x"
proof (rule mat_derivI)
  define n m where "n = nrows (F x)" and "m = ncols (F x)"
  have s: "\<And>t. nrows (F t) = n" "\<And>t. ncols (F t) = m" "nrows D = n" "ncols D = m"
    unfolding n_def m_def by (rule r, rule c, rule mat_deriv_shape [OF F], rule mat_deriv_shape [OF F])
  fix i j
  show "((\<lambda>t. entry (kron (F t) B) i j) has_vector_derivative entry (kron D B) i j) (at x)"
    apply (simp only: entry_kron s)
    apply (rule hvd_guard)
    using has_vector_derivative_mult_left [OF
          mat_deriv_entry [OF F, of "i div nrows B" "j div ncols B"],
          of "entry B (i mod nrows B) (j mod ncols B)"]
    apply simp
    done
qed (simp_all add: mat_deriv_shape [OF F])

lemma mat_deriv_kron3_left:
  assumes F: "mat_deriv F D x"
    and r: "\<And>t. nrows (F t) = nrows (F x)" and c: "\<And>t. ncols (F t) = ncols (F x)"
  shows "mat_deriv (\<lambda>t. priv_kron3 (F t) B C) (priv_kron3 D B C) x"
  unfolding priv_kron3_def
proof (rule mat_deriv_kron_left)
  show "mat_deriv (\<lambda>t. kron (F t) B) (kron D B) x"
    by (rule mat_deriv_kron_left [OF F r c])
  show "nrows (kron (F t) B) = nrows (kron (F x) B)" for t
    using r [of t] by simp
  show "ncols (kron (F t) B) = ncols (kron (F x) B)" for t
    using c [of t] by simp
qed

lemma mat_deriv_mpow2:
  assumes X: "mat_deriv X X' x"
    and r: "\<And>t. nrows (X t) = nrows (X x)" and c: "\<And>t. ncols (X t) = nrows (X x)"
  shows "mat_deriv (\<lambda>t. mpow2 (X t)) (madd (mmul X' (X x)) (mmul (X x) X')) x"
proof (rule mat_derivI)
  define n where "n = nrows (X x)"
  have s: "\<And>t. nrows (X t) = n" "\<And>t. ncols (X t) = n"
    unfolding n_def by (rule r, rule c)
  have s': "nrows X' = n" "ncols X' = n"
    using mat_deriv_shape [OF X] s by simp_all
  fix i j
  show "((\<lambda>t. entry (mpow2 (X t)) i j) has_vector_derivative
          entry (madd (mmul X' (X x)) (mmul (X x) X')) i j) (at x)"
  proof -
    have d: "((\<lambda>t. \<Sum>k<n. entry (X t) i k * entry (X t) k j) has_vector_derivative
               (\<Sum>k<n. entry (X x) i k * entry X' k j + entry X' i k * entry (X x) k j)) (at x)"
      by (intro has_vector_derivative_sum has_vector_derivative_mult mat_deriv_entry [OF X])
    have e: "(\<Sum>k<n. entry (X x) i k * entry X' k j + entry X' i k * entry (X x) k j)
           = (\<Sum>k<n. entry X' i k * entry (X x) k j) + (\<Sum>k<n. entry (X x) i k * entry X' k j)"
      by (simp add: sum.distrib add.commute)
    have l: "(\<lambda>t. entry (mpow2 (X t)) i j)
           = (\<lambda>t. if i < n \<and> j < n then \<Sum>k<n. entry (X t) i k * entry (X t) k j else 0)"
      by (simp add: mpow2_def entry_mmul s cong: if_cong)
    have r: "entry (madd (mmul X' (X x)) (mmul (X x) X')) i j
           = (if i < n \<and> j < n
              then (\<Sum>k<n. entry X' i k * entry (X x) k j) + (\<Sum>k<n. entry (X x) i k * entry X' k j)
              else 0)"
      by (simp add: entry_mmul entry_madd s s' cong: if_cong)
    show ?thesis
      unfolding l r by (rule hvd_guard) (use d e in simp)
  qed
next
  show "nrows (madd (mmul X' (X x)) (mmul (X x) X')) = nrows (mpow2 (X x))"
    using mat_deriv_shape(1) [OF X] by simp
  show "ncols (madd (mmul X' (X x)) (mmul (X x) X')) = ncols (mpow2 (X x))"
    by simp
qed

lemma hvd_unique:
  fixes f :: "real \<Rightarrow> complex"
  assumes "(f has_vector_derivative a) (at x)" "(f has_vector_derivative b) (at x)"
  shows "a = b"
proof -
  have "(\<lambda>h. h *\<^sub>R a) = (\<lambda>h. h *\<^sub>R b)"
    using has_derivative_unique assms unfolding has_vector_derivative_def by blast
  then have "1 *\<^sub>R a = 1 *\<^sub>R b" by (rule fun_cong)
  then show ?thesis by simp
qed

section \<open>The derivative operators\<close>

lemmas qubit_op_defs =
  priv_dim_phi_def priv_dim_zeta_def priv_dim_theta_def priv_disordered_el_def
  priv_disordered_ecj_def phi_osc_def zeta_osc_def phi_plasma_def zeta_plasma_def
  priv_identity_phi_def priv_identity_zeta_def priv_identity_theta_def total_identity_def
  priv_phi_operator_def phi_operator_def priv_n_phi_operator_def n_phi_operator_def
  priv_zeta_operator_def zeta_operator_def priv_n_zeta_operator_def n_zeta_operator_def
  priv_exp_i_phi_operator_def priv_cos_phi_operator_def priv_sin_phi_operator_def
  priv_n_theta_operator_def n_theta_operator_def priv_cos_theta_operator_def
  priv_sin_theta_operator_def

lemma flux_indep:
  "flux (p\<lparr>flux := t\<rparr>) = t" "EJ (p\<lparr>flux := t\<rparr>) = EJ p"
  "dEJ (p\<lparr>flux := t\<rparr>) = dEJ p" "dL (p\<lparr>flux := t\<rparr>) = dL p"
  "dCJ (p\<lparr>flux := t\<rparr>) = dCJ p" "ng (p\<lparr>flux := t\<rparr>) = ng p"
  "priv_dim_phi (p\<lparr>flux := t\<rparr>) = priv_dim_phi p"
  "priv_dim_zeta (p\<lparr>flux := t\<rparr>) = priv_dim_zeta p"
  "priv_dim_theta (p\<lparr>flux := t\<rparr>) = priv_dim_theta p"
  "priv_disordered_el (p\<lparr>flux := t\<rparr>) = priv_disordered_el p"
  "priv_disordered_ecj (p\<lparr>flux := t\<rparr>) = priv_disordered_ecj p"
  "phi_plasma (p\<lparr>flux := t\<rparr>) = phi_plasma p"
  "zeta_plasma (p\<lparr>flux := t\<rparr>) = zeta_plasma p"
  "priv_identity_phi (p\<lparr>flux := t\<rparr>) = priv_identity_phi p"
  "priv_identity_zeta (p\<lparr>flux := t\<rparr>) = priv_identity_zeta p"
  "priv_identity_theta (p\<lparr>flux := t\<rparr>) = priv_identity_theta p"
  "total_identity (p\<lparr>flux := t\<rparr>) = total_identity p"
  "priv_phi_operator (p\<lparr>flux := t\<rparr>) = priv_phi_operator p"
  "priv_n_phi_operator (p\<lparr>flux := t\<rparr>) = priv_n_phi_operator p"
  "priv_zeta_operator (p\<lparr>flux := t\<rparr>) = priv_zeta_operator p"
  "priv_n_zeta_operator (p\<lparr>flux := t\<rparr>) = priv_n_zeta_operator p"
  "priv_n_theta_operator (p\<lparr>flux := t\<rparr>) = priv_n_theta_operator p"
  "priv_cos_theta_operator (p\<lparr>flux := t\<rparr>) = priv_cos_theta_operator p"
  "priv_sin_theta_operator (p\<lparr>flux := t\<rparr>) = priv_sin_theta_operator p"
  "priv_cos_phi_operator ext (p\<lparr>flux := t\<rparr>) = priv_cos_phi_operator ext p"
  "priv_sin_phi_operator ext (p\<lparr>flux := t\<rparr>) = priv_sin_phi_operator ext p"
  "n_phi_operator (p\<lparr>flux := t\<rparr>) e = n_phi_operator p e"
  "n_zeta_operator (p\<lparr>flux := t\<rparr>) e = n_zeta_operator p e"
  "n_theta_operator (p\<lparr>flux := t\<rparr>) e = n_theta_operator p e"
  by (simp_all add: qubit_op_defs)

lemma mat_deriv_smult_cos:
  "mat_deriv (\<lambda>t. smult (complex_of_real (cos (t * pi))) A)
     (smult (complex_of_real (- sin (x * pi) * pi)) A) x"
  by (rule mat_deriv_smult_fun) (auto intro!: derivative_eq_intros)

lemma mat_deriv_smult_sin:
  "mat_deriv (\<lambda>t. smult (complex_of_real (sin (t * pi))) A)
     (smult (complex_of_real (cos (x * pi) * pi)) A) x"
  by (rule mat_deriv_smult_fun) (auto intro!: derivative_eq_intros)

lemma mat_deriv_smult_lin:
  "mat_deriv (\<lambda>t. smult (complex_of_real (a * t)) A) (smult (complex_of_real a) A) x"
  by (rule mat_deriv_smult_fun) (auto intro!: derivative_eq_intros)

lemma mat_deriv_smult_lin2:
  "mat_deriv (\<lambda>t. smult (complex_of_real (a * t * b)) A) (smult (complex_of_real (a * b)) A) x"
  by (rule mat_deriv_smult_fun) (auto intro!: derivative_eq_intros)

lemma mat_deriv_smult_id:
  "mat_deriv (\<lambda>t. smult (complex_of_real t) A) (smult (complex_of_real 1) A) x"
  by (rule mat_deriv_smult_fun) (auto intro!: derivative_eq_intros)

lemmas mat_deriv_rules =
  mat_deriv_const mat_deriv_smult_cos mat_deriv_smult_sin mat_deriv_smult_lin
  mat_deriv_smult_lin2 mat_deriv_smult_id
  mat_deriv_madd mat_deriv_msub mat_deriv_smult mat_deriv_kron3_left mat_deriv_mpow2

lemma kron_smult_left: "kron (smult c A) B = smult c (kron A B)"
  by (rule mat_eqI) (auto simp: entry_kron entry_smult kron_index)

lemma kron_madd_left:
  assumes "nrows A' = nrows A" "ncols A' = ncols A"
  shows "kron (madd A A') B = madd (kron A B) (kron A' B)"
  by (rule mat_eqI) (auto simp: entry_kron entry_madd kron_index assms algebra_simps)

lemma kron_msub_left:
  assumes "nrows A' = nrows A" "ncols A' = ncols A"
  shows "kron (msub A A') B = msub (kron A B) (kron A' B)"
  by (rule mat_eqI) (auto simp: entry_kron entry_msub kron_index assms algebra_simps)

lemma kron3_smult_left: "priv_kron3 (smult c A) B C = smult c (priv_kron3 A B C)"
  by (simp add: priv_kron3_def kron_smult_left)

lemma kron3_madd_left:
  assumes "nrows A' = nrows A" "ncols A' = ncols A"
  shows "priv_kron3 (madd A A') B C = madd (priv_kron3 A B C) (priv_kron3 A' B C)"
  by (simp add: priv_kron3_def kron_madd_left assms)

lemma kron3_msub_left:
  assumes "nrows A' = nrows A" "ncols A' = ncols A"
  shows "priv_kron3 (msub A A') B C = msub (priv_kron3 A B C) (priv_kron3 A' B C)"
  by (simp add: priv_kron3_def kron_msub_left assms)

lemmas entry_lin = entry_madd entry_msub entry_smult entry_mneg

lemma deriv_flux:
  assumes e: "expm_keeps_shape ext"
  shows "mat_deriv (\<lambda>t. hamiltonian ext (p\<lparr>flux := t\<rparr>) NativeBasis)
           (d_hamiltonian_d_flux ext p NativeBasis) (flux p)"
  unfolding hamiltonian_def Let_def process_hamiltonian_native flux_indep
  apply (rule mat_deriv_eq_rhs)
   apply ((rule mat_deriv_rules | simp add: shape_cos_sin_phi [OF e])+)[1]
  apply (simp only: d_hamiltonian_d_flux_def Let_def process_op_native)
  apply (simp only: kron3_smult_left kron3_madd_left kron3_msub_left shape_simps
      shape_cos_sin_phi [OF e])
  apply (rule mat_eqI)
      apply (simp_all add: entry_lin shape_cos_sin_phi [OF e] algebra_simps)
  done

lemma EJ_indep:
  "EJ (p\<lparr>EJ := t\<rparr>) = t"
  "dEJ (p\<lparr>EJ := t\<rparr>) = dEJ p"
  "dL (p\<lparr>EJ := t\<rparr>) = dL p"
  "dCJ (p\<lparr>EJ := t\<rparr>) = dCJ p"
  "ng (p\<lparr>EJ := t\<rparr>) = ng p"
  "flux (p\<lparr>EJ := t\<rparr>) = flux p"
  "priv_dim_phi (p\<lparr>EJ := t\<rparr>) = priv_dim_phi p"
  "priv_dim_zeta (p\<lparr>EJ := t\<rparr>) = priv_dim_zeta p"
  "priv_dim_theta (p\<lparr>EJ := t\<rparr>) = priv_dim_theta p"
  "priv_disordered_el (p\<lparr>EJ := t\<rparr>) = priv_disordered_el p"
  "priv_disordered_ecj (p\<lparr>EJ := t\<rparr>) = priv_disordered_ecj p"
  "phi_plasma (p\<lparr>EJ := t\<rparr>) = phi_plasma p"
  "zeta_plasma (p\<lparr>EJ := t\<rparr>) = zeta_plasma p"
  "priv_identity_phi (p\<lparr>EJ := t\<rparr>) = priv_identity_phi p"
  "priv_identity_zeta (p\<lparr>EJ := t\<rparr>) = priv_identity_zeta p"
  "priv_identity_theta (p\<lparr>EJ := t\<rparr>) = priv_identity_theta p"
  "total_identity (p\<lparr>EJ := t\<rparr>) = total_identity p"
  "priv_phi_operator (p\<lparr>EJ := t\<rparr>) = priv_phi_operator p"
  "priv_n_phi_operator (p\<lparr>EJ := t\<rparr>) = priv_n_phi_operator p"
  "priv_zeta_operator (p\<lparr>EJ := t\<rparr>) = priv_zeta_operator p"
  "priv_n_zeta_operator (p\<lparr>EJ := t\<rparr>) = priv_n_zeta_operator p"
  "priv_n_theta_operator (p\<lparr>EJ := t\<rparr>) = priv_n_theta_operator p"
  "priv_cos_theta_operator (p\<lparr>EJ := t\<rparr>) = priv_cos_theta_operator p"
  "priv_sin_theta_operator (p\<lparr>EJ := t\<rparr>) = priv_sin_theta_operator p"
  "priv_cos_phi_operator ext (p\<lparr>EJ := t\<rparr>) = priv_cos_phi_operator ext p"
  "priv_sin_phi_operator ext (p\<lparr>EJ := t\<rparr>) = priv_sin_phi_operator ext p"
  "n_phi_operator (p\<lparr>EJ := t\<rparr>) e = n_phi_operator p e"
  "n_zeta_operator (p\<lparr>EJ := t\<rparr>) e = n_zeta_operator p e"
  "n_theta_operator (p\<lparr>EJ := t\<rparr>) e = n_theta_operator p e"
  by (simp_all add: qubit_op_defs)

lemma ng_indep:
  "EJ (p\<lparr>ng := t\<rparr>) = EJ p"
  "dEJ (p\<lparr>ng := t\<rparr>) = dEJ p"
  "dL (p\<lparr>ng := t\<rparr>) = dL p"
  "dCJ (p\<lparr>ng := t\<rparr>) = dCJ p"
  "ng (p\<lparr>ng := t\<rparr>) = t"
  "flux (p\<lparr>ng := t\<rparr>) = flux p"
  "priv_dim_phi (p\<lparr>ng := t\<rparr>) = priv_dim_phi p"
  "priv_dim_zeta (p\<lparr>ng := t\<rparr>) = priv_dim_zeta p"
  "priv_dim_theta (p\<lparr>ng := t\<rparr>) = priv_dim_theta p"
  "priv_disordered_el (p\<lparr>ng := t\<rparr>) = priv_disordered_el p"
  "priv_disordered_ecj (p\<lparr>ng := t\<rparr>) = priv_disordered_ecj p"
  "phi_plasma (p\<lparr>ng := t\<rparr>) = phi_plasma p"
  "zeta_plasma (p\<lparr>ng := t\<rparr>) = zeta_plasma p"
  "priv_identity_phi (p\<lparr>ng := t\<rparr>) = priv_identity_phi p"
  "priv_identity_zeta (p\<lparr>ng := t\<rparr>) = priv_identity_zeta p"
  "priv_identity_theta (p\<lparr>ng := t\<rparr>) = priv_identity_theta p"
  "total_identity (p\<lparr>ng := t\<rparr>) = total_identity p"
  "priv_phi_operator (p\<lparr>ng := t\<rparr>) = priv_phi_operator p"
  "priv_n_phi_operator (p\<lparr>ng := t\<rparr>) = priv_n_phi_operator p"
  "priv_zeta_operator (p\<lparr>ng := t\<rparr>) = priv_zeta_operator p"
  "priv_n_zeta_operator (p\<lparr>ng := t\<rparr>) = priv_n_zeta_operator p"
  "priv_n_theta_operator (p\<lparr>ng := t\<rparr>) = priv_n_theta_operator p"
  "priv_cos_theta_operator (p\<lparr>ng := t\<rparr>) = priv_cos_theta_operator p"
  "priv_sin_theta_operator (p\<lparr>ng := t\<rparr>) = priv_sin_theta_operator p"
  "priv_cos_phi_operator ext (p\<lparr>ng := t\<rparr>) = priv_cos_phi_operator ext p"
  "priv_sin_phi_operator ext (p\<lparr>ng := t\<rparr>) = priv_sin_phi_operator ext p"
  "n_phi_operator (p\<lparr>ng := t\<rparr>) e = n_phi_operator p e"
  "n_zeta_operator (p\<lparr>ng := t\<rparr>) e = n_zeta_operator p e"
  "n_theta_operator (p\<lparr>ng := t\<rparr>) e = n_theta_operator p e"
  by (simp_all add: qubit_op_defs)

lemma shape_d_EJ:
  assumes e: "expm_keeps_shape ext"
  shows "nrows (d_hamiltonian_d_EJ ext p NativeBasis)
           = nat (priv_dim_phi p) * nat (priv_dim_zeta p) * nat (priv_dim_theta p)"
    "ncols (d_hamiltonian_d_EJ ext p NativeBasis)
           = nat (priv_dim_phi p) * nat (priv_dim_zeta p) * nat (priv_dim_theta p)"
  by (simp_all add: d_hamiltonian_d_EJ_def Let_def shape_cos_sin_phi [OF e])

lemma deriv_EJ:
  assumes e: "expm_keeps_shape ext"
  shows "mat_deriv (\<lambda>t. hamiltonian ext (p\<lparr>EJ := t\<rparr>) NativeBasis)
           (madd (d_hamiltonian_d_EJ ext p NativeBasis) (smult 2 (total_identity p))) (EJ p)"
  unfolding hamiltonian_def Let_def process_hamiltonian_native EJ_indep
  apply (rule mat_deriv_eq_rhs)
   apply ((rule mat_deriv_rules | simp add: shape_cos_sin_phi [OF e])+)[1]
  apply (simp only: d_hamiltonian_d_EJ_def Let_def process_op_native)
  apply (rule mat_eqI)
      apply (simp_all add: entry_lin shape_cos_sin_phi [OF e] algebra_simps)
  done

lemma div_mod_eq_iff:
  fixes i j b :: nat
  shows "i div b = j div b \<and> i mod b = j mod b \<longleftrightarrow> i = j"
  by (metis div_mult_mod_eq)

lemma kron_eye: "kron (eye a) (eye b) = eye (a * b)"
proof (rule mat_eqI)
  fix i j assume "i < nrows (eye (a * b))" "j < ncols (eye (a * b))"
  then have i: "i < a * b" and j: "j < a * b" by simp_all
  show "entry (kron (eye a) (eye b)) i j = entry (eye (a * b)) i j"
    using i j kron_index [OF i] kron_index [OF j] div_mod_eq_iff [of i b j]
    by (auto simp: entry_kron entry_eye)
qed simp_all

lemma total_identity_eye:
  "total_identity p = eye (nat (priv_dim_phi p) * nat (priv_dim_zeta p) * nat (priv_dim_theta p))"
  by (simp add: total_identity_def priv_kron3_def priv_identity_phi_def priv_identity_zeta_def
        priv_identity_theta_def kron_eye)

lemma sum_delta_left:
  fixes f :: "nat \<Rightarrow> complex"
  assumes "i < n"
  shows "(\<Sum>k<n. (if i = k then c else 0) * f k) = c * f i"
proof -
  have "(\<Sum>k<n. (if i = k then c else 0) * f k) = (\<Sum>k\<in>{..<n}. if k = i then c * f i else 0)"
    by (rule sum.cong) auto
  also have "\<dots> = c * f i" using assms by (simp add: sum.delta)
  finally show ?thesis .
qed

lemma sum_delta_right:
  fixes f :: "nat \<Rightarrow> complex"
  assumes "j < n"
  shows "(\<Sum>k<n. f k * (if k = j then c else 0)) = f j * c"
proof -
  have "(\<Sum>k<n. f k * (if k = j then c else 0)) = (\<Sum>k\<in>{..<n}. if k = j then f j * c else 0)"
    by (rule sum.cong) auto
  also have "\<dots> = f j * c" using assms by (simp add: sum.delta)
  finally show ?thesis .
qed

lemma mmul_scaled_eye_left:
  assumes "nrows X = n"
  shows "mmul (smult c (eye n)) X = smult c X"
proof (rule mat_eqI)
  fix i j assume "i < nrows (smult c X)" "j < ncols (smult c X)"
  then have i: "i < n" and j: "j < ncols X" using assms by simp_all
  have "(\<Sum>k<n. entry (smult c (eye n)) i k * entry X k j)
          = (\<Sum>k<n. (if i = k then c else 0) * entry X k j)"
    by (rule sum.cong) (use i in \<open>auto simp: entry_smult entry_eye\<close>)
  then show "entry (mmul (smult c (eye n)) X) i j = entry (smult c X) i j"
    using i j assms by (simp add: entry_mmul entry_smult sum_delta_left)
qed (use assms in simp_all)

lemma mmul_scaled_eye_right:
  assumes "ncols X = n"
  shows "mmul X (smult c (eye n)) = smult c X"
proof (rule mat_eqI)
  fix i j assume "i < nrows (smult c X)" "j < ncols (smult c X)"
  then have i: "i < nrows X" and j: "j < n" using assms by simp_all
  have "(\<Sum>k<n. entry X i k * entry (smult c (eye n)) k j)
          = (\<Sum>k<n. entry X i k * (if k = j then c else 0))"
    by (rule sum.cong) (use j in \<open>auto simp: entry_smult entry_eye\<close>)
  then show "entry (mmul X (smult c (eye n))) i j = entry (smult c X) i j"
    using i j assms by (simp add: entry_mmul entry_smult sum_delta_right)
qed (use assms in simp_all)

lemma neg_eye_form:
  "msub (msub (mzero n n) (smult (complex_of_real 1) (eye n))) (mzero n n) = smult (- 1) (eye n)"
  by (rule mat_eqI) (auto simp: entry_lin)

lemma deriv_ng:
  "mat_deriv (\<lambda>t. hamiltonian ext (p\<lparr>ng := t\<rparr>) NativeBasis)
     (msub (smult (complex_of_real (4 * dCJ p * priv_disordered_ecj p)) (n_phi_operator p NativeBasis))
           (smult (complex_of_real (4 * priv_disordered_ecj p))
              (msub (msub (n_theta_operator p NativeBasis)
                          (smult (complex_of_real (ng p)) (total_identity p)))
                    (n_zeta_operator p NativeBasis))))
     (ng p)"
  unfolding hamiltonian_def Let_def process_hamiltonian_native ng_indep
  apply (rule mat_deriv_eq_rhs)
   apply ((rule mat_deriv_rules | simp)+)[1]
  apply (simp only: total_identity_eye shape_simps shape_full_ops neg_eye_form
      mmul_scaled_eye_left mmul_scaled_eye_right)
  apply (rule mat_eqI)
      apply (simp_all add: entry_lin algebra_simps)
  done

lemma msub_zero_scaled:
  assumes "wf_mat A" "nrows B = nrows A" "ncols B = ncols A"
  shows "msub A (smult (complex_of_real 0) B) = A"
  by (rule mat_eqI) (use assms in \<open>auto simp: entry_lin\<close>)

lemma d_ng_at_zero:
  assumes "ng p = 0"
  shows "d_hamiltonian_d_ng p NativeBasis
           = Inr (msub (smult (complex_of_real (4 * dCJ p * priv_disordered_ecj p))
                          (n_phi_operator p NativeBasis))
                       (smult (complex_of_real (4 * priv_disordered_ecj p))
                          (msub (msub (n_theta_operator p NativeBasis)
                                      (smult (complex_of_real (ng p)) (total_identity p)))
                                (n_zeta_operator p NativeBasis))))"
  using assms
  by (simp add: d_hamiltonian_d_ng_def sparse_sub_scalar_def Let_def msub_zero_scaled
        del: of_real_0)

text \<open>
  C1, as amended. For every valid parameter set, in the native basis:
  \<open>d_hamiltonian_d_flux(False)\<close> is the exact partial derivative of \<open>hamiltonian(False)\<close>
  with respect to \<open>flux\<close>; \<open>d_hamiltonian_d_EJ(False)\<close> plus twice the identity is the
  exact partial derivative with respect to \<open>EJ\<close> (the operator leaves out the derivative
  of the constant offset \<open>2 EJ I\<close> of the Josephson term); and when \<open>ng = 0\<close>,
  \<open>d_hamiltonian_d_ng(False)\<close> returns the exact partial derivative with respect to \<open>ng\<close>.
  All other parameters are held fixed.
\<close>

theorem derivative_operators:
  assumes e: "expm_keeps_shape ext" and v: "valid_params p"
  shows "mat_deriv (\<lambda>t. hamiltonian ext (p\<lparr>flux := t\<rparr>) NativeBasis)
           (d_hamiltonian_d_flux ext p NativeBasis) (flux p)
       \<and> mat_deriv (\<lambda>t. hamiltonian ext (p\<lparr>EJ := t\<rparr>) NativeBasis)
           (madd (d_hamiltonian_d_EJ ext p NativeBasis) (smult 2 (total_identity p))) (EJ p)
       \<and> (ng p = 0 \<longrightarrow>
            (\<exists>D. d_hamiltonian_d_ng p NativeBasis = Inr D
                 \<and> mat_deriv (\<lambda>t. hamiltonian ext (p\<lparr>ng := t\<rparr>) NativeBasis) D (ng p)))"
  using deriv_flux [OF e, of p] deriv_EJ [OF e, of p] deriv_ng [of ext p] d_ng_at_zero [of p]
  by blast

lemma entry_total_identity_00:
  assumes "valid_params p"
  shows "entry (total_identity p) 0 0 = 1"
    "0 < nat (priv_dim_phi p) * nat (priv_dim_zeta p) * nat (priv_dim_theta p)"
  using assms
  by (simp_all add: total_identity_eye entry_eye valid_params_def priv_dim_phi_def
        priv_dim_zeta_def priv_dim_theta_def)

lemma d_EJ_not_derivative:
  assumes e: "expm_keeps_shape ext" and v: "valid_params p"
  shows "\<not> mat_deriv (\<lambda>t. hamiltonian ext (p\<lparr>EJ := t\<rparr>) NativeBasis)
             (d_hamiltonian_d_EJ ext p NativeBasis) (EJ p)"
proof
  assume a: "mat_deriv (\<lambda>t. hamiltonian ext (p\<lparr>EJ := t\<rparr>) NativeBasis)
               (d_hamiltonian_d_EJ ext p NativeBasis) (EJ p)"
  have "entry (d_hamiltonian_d_EJ ext p NativeBasis) 0 0
          = entry (madd (d_hamiltonian_d_EJ ext p NativeBasis) (smult 2 (total_identity p))) 0 0"
    by (rule hvd_unique [OF mat_deriv_entry [OF a] mat_deriv_entry [OF deriv_EJ [OF e]]])
  then show False
    using entry_total_identity_00 [OF v]
    by (simp add: entry_madd entry_smult shape_d_EJ [OF e])
qed

text \<open>
  C1 as stated fails. At the default parameters the diagonal entry \<open>(0, 0)\<close> of the
  Hamiltonian contains \<open>2 EJ\<close> from the offset of the Josephson term and nothing else that
  depends on \<open>EJ\<close> (the diagonals of \<open>cos \<theta>\<close> and \<open>sin \<theta>\<close> are zero), so its derivative is 2,
  while the same entry of \<open>d_hamiltonian_d_EJ\<close> is 0, whatever the matrix exponential
  returns. With \<open>ng = 0.25\<close>, \<open>d_hamiltonian_d_ng\<close> returns no operator at all.
\<close>

theorem derivative_operators_counterexample:
  "\<not> mat_deriv (\<lambda>t. hamiltonian sample_collaborators (default_params\<lparr>EJ := t\<rparr>) NativeBasis)
        (d_hamiltonian_d_EJ sample_collaborators default_params NativeBasis) (EJ default_params)
   \<and> d_hamiltonian_d_ng (default_params\<lparr>ng := 0.25\<rparr>) NativeBasis = Inl NotImplementedError"
  using d_EJ_not_derivative [OF sample_expm_keeps_shape valid_default_params]
  by (simp add: d_hamiltonian_d_ng_def sparse_sub_scalar_def Let_def)

theorem derivative_operators_witness:
  "expm_keeps_shape sample_collaborators \<and> valid_params default_params \<and> ng default_params = 0
   \<and> mat_deriv (\<lambda>t. hamiltonian sample_collaborators (default_params\<lparr>flux := t\<rparr>) NativeBasis)
        (d_hamiltonian_d_flux sample_collaborators default_params NativeBasis) (flux default_params)
   \<and> mat_deriv (\<lambda>t. hamiltonian sample_collaborators (default_params\<lparr>EJ := t\<rparr>) NativeBasis)
        (madd (d_hamiltonian_d_EJ sample_collaborators default_params NativeBasis)
              (smult 2 (total_identity default_params))) (EJ default_params)
   \<and> (\<exists>D. d_hamiltonian_d_ng default_params NativeBasis = Inr D
          \<and> mat_deriv (\<lambda>t. hamiltonian sample_collaborators (default_params\<lparr>ng := t\<rparr>) NativeBasis)
               D (ng default_params))"
proof -
  have n: "ng default_params = 0" by (simp add: default_params_def)
  show ?thesis
    using derivative_operators [OF sample_expm_keeps_shape valid_default_params] n
      sample_expm_keeps_shape valid_default_params
    by blast
qed

section \<open>The wavefunction of a single basis state\<close>

lemma array3_eqI:
  assumes A: "shape3 a b c A" and B: "shape3 a b c B"
    and e: "\<And>i j k. i < a \<Longrightarrow> j < b \<Longrightarrow> k < c \<Longrightarrow> A ! i ! j ! k = B ! i ! j ! k"
  shows "A = B"
proof (rule nth_equalityI)
  show "length A = length B" using A B by (simp add: shape3_def)
  fix i assume "i < length A"
  then have i: "i < a" using A by (simp add: shape3_def)
  show "A ! i = B ! i"
  proof (rule nth_equalityI)
    show "length (A ! i) = length (B ! i)" using A B i by (simp add: shape3_def)
    fix j assume "j < length (A ! i)"
    then have j: "j < b" using A i by (simp add: shape3_def)
    show "A ! i ! j = B ! i ! j"
    proof (rule nth_equalityI)
      show "length (A ! i ! j) = length (B ! i ! j)" using A B i j by (simp add: shape3_def)
      fix k assume "k < length (A ! i ! j)"
      then have "k < c" using A i j by (simp add: shape3_def)
      then show "A ! i ! j ! k = B ! i ! j ! k" using e i j by simp
    qed
  qed
qed

lemma shape3_add3:
  assumes "shape3 a b c A" "shape3 a b c B"
  shows "shape3 a b c (add3 A B)"
  using assms by (simp add: shape3_def add3_def)

lemma nth_add3:
  assumes "shape3 a b c A" "shape3 a b c B" "i < a" "j < b" "k < c"
  shows "add3 A B ! i ! j ! k = A ! i ! j ! k + B ! i ! j ! k"
  using assms by (simp add: shape3_def add3_def)

lemma shape3_scale3:
  assumes "shape3 a b c A"
  shows "shape3 a b c (scale3 x A)"
  using assms by (simp add: shape3_def scale3_def)

lemma nth_scale3:
  assumes "shape3 a b c A" "i < a" "j < b" "k < c"
  shows "scale3 x A ! i ! j ! k = x * (A ! i ! j ! k)"
  using assms by (simp add: shape3_def scale3_def)

lemma shape3_zeros3: "shape3 a b c (zeros3 a b c)"
  by (simp add: shape3_def zeros3_def)

lemma nth_zeros3:
  assumes "i < a" "j < b" "k < c"
  shows "zeros3 a b c ! i ! j ! k = 0"
  using assms by (simp add: zeros3_def)

lemma shape3_tensordot:
  "shape3 (length u) (length v) (length w) (tensordot_mv (tensordot_vv u v) w)"
  by (simp add: shape3_def tensordot_mv_def tensordot_vv_def)

lemma nth_tensordot:
  assumes "i < length u" "j < length v" "k < length w"
  shows "tensordot_mv (tensordot_vv u v) w ! i ! j ! k = u ! i * v ! j * w ! k"
  using assms by (simp add: tensordot_mv_def tensordot_vv_def)

lemma length_make_linspace [simp]: "length (make_linspace g) = pt_count g"
  by (simp add: make_linspace_def)

lemma wavefunction_step_shape:
  assumes "shape3 (length xs) (length ys) (length zs) acc"
  shows "shape3 (length xs) (length ys) (length zs) (wavefunction_step ext p amp xs ys zs i j k acc)"
proof -
  let ?u = "map (\<lambda>x. complex_of_real (harm_osc_wavefunction ext (int i) x (phi_osc p))) xs"
  let ?v = "map (\<lambda>x. complex_of_real (harm_osc_wavefunction ext (int j) x (zeta_osc p))) ys"
  let ?w = "map (\<lambda>x. exp (- \<i> * of_int (int k - ncut p) * complex_of_real x)
                        / complex_of_real ((2 * pi) powr 0.5)) zs"
  have t: "shape3 (length xs) (length ys) (length zs) (tensordot_mv (tensordot_vv ?u ?v) ?w)"
    using shape3_tensordot [of ?u ?v ?w] by simp
  show ?thesis
    unfolding wavefunction_step_def Let_def
    by (rule shape3_add3 [OF assms shape3_scale3 [OF t]])
qed

lemma wavefunction_step_nth:
  assumes "shape3 (length xs) (length ys) (length zs) acc"
    and "a < length xs" "b < length ys" "c < length zs"
  shows "wavefunction_step ext p amp xs ys zs i j k acc ! a ! b ! c
           = acc ! a ! b ! c
             + amp i j k
               * (complex_of_real (harm_osc_wavefunction ext (int i) (xs ! a) (phi_osc p))
                  * complex_of_real (harm_osc_wavefunction ext (int j) (ys ! b) (zeta_osc p))
                  * (exp (- \<i> * of_int (int k - ncut p) * complex_of_real (zs ! c))
                       / complex_of_real ((2 * pi) powr 0.5)))"
proof -
  let ?u = "map (\<lambda>x. complex_of_real (harm_osc_wavefunction ext (int i) x (phi_osc p))) xs"
  let ?v = "map (\<lambda>x. complex_of_real (harm_osc_wavefunction ext (int j) x (zeta_osc p))) ys"
  let ?w = "map (\<lambda>x. exp (- \<i> * of_int (int k - ncut p) * complex_of_real x)
                        / complex_of_real ((2 * pi) powr 0.5)) zs"
  have t: "shape3 (length xs) (length ys) (length zs) (tensordot_mv (tensordot_vv ?u ?v) ?w)"
    using shape3_tensordot [of ?u ?v ?w] by simp
  have n: "tensordot_mv (tensordot_vv ?u ?v) ?w ! a ! b ! c = ?u ! a * ?v ! b * ?w ! c"
    by (rule nth_tensordot) (use assms in simp_all)
  show ?thesis
    unfolding wavefunction_step_def Let_def
    using assms
    by (simp only: nth_add3 [OF assms(1) shape3_scale3 [OF t] assms(2-4)]
          nth_scale3 [OF t assms(2-4)] n nth_map)
qed

lemma wavefunction_step_zero:
  assumes "shape3 (length xs) (length ys) (length zs) acc" and "amp i j k = 0"
  shows "wavefunction_step ext p amp xs ys zs i j k acc = acc"
  by (rule array3_eqI [OF wavefunction_step_shape [OF assms(1)] assms(1)])
     (simp add: wavefunction_step_nth [OF assms(1)] assms(2))

lemma fold_unchanged:
  assumes "\<And>x. x \<in> set xs \<Longrightarrow> f x acc = acc"
  shows "fold f xs acc = acc"
  using assms by (induction xs) simp_all

lemma idx_bound:
  fixes i j k :: nat
  assumes "i < d1" "j < d2" "k < d3"
  shows "(i * d2 + j) * d3 + k < d1 * d2 * d3"
proof -
  have "i * d2 + j < i * d2 + d2" using assms(2) by simp
  also have "\<dots> = Suc i * d2" by simp
  also have "\<dots> \<le> d1 * d2" using assms(1) by (intro mult_le_mono1) simp
  finally have "Suc (i * d2 + j) \<le> d1 * d2" by simp
  then have "Suc (i * d2 + j) * d3 \<le> d1 * d2 * d3" by (rule mult_le_mono1)
  moreover have "(i * d2 + j) * d3 + k < Suc (i * d2 + j) * d3" using assms(3) by simp
  ultimately show ?thesis by linarith
qed

lemma idx_pos:
  fixes i j k :: nat
  assumes "0 < d2" "0 < d3" "i \<noteq> 0 \<or> j \<noteq> 0 \<or> k \<noteq> 0"
  shows "0 < (i * d2 + j) * d3 + k"
  using assms by auto

lemma wavefunction_loop:
  fixes amp :: "nat \<Rightarrow> nat \<Rightarrow> nat \<Rightarrow> complex"
  assumes d: "0 < d1" "0 < d2" "0 < d3"
    and z: "\<And>i j k. i < d1 \<Longrightarrow> j < d2 \<Longrightarrow> k < d3 \<Longrightarrow> i \<noteq> 0 \<or> j \<noteq> 0 \<or> k \<noteq> 0
              \<Longrightarrow> amp i j k = 0"
  shows "fold (\<lambda>i. fold (\<lambda>j. fold (\<lambda>k. wavefunction_step ext p amp xs ys zs i j k)
                 [0..<d3]) [0..<d2]) [0..<d1]
           (zeros3 (length xs) (length ys) (length zs))
         = wavefunction_step ext p amp xs ys zs 0 0 0 (zeros3 (length xs) (length ys) (length zs))"
proof -
  let ?S = "\<lambda>i j k. wavefunction_step ext p amp xs ys zs i j k"
  let ?Z = "zeros3 (length xs) (length ys) (length zs)"
  let ?R = "?S 0 0 0 ?Z"
  have R: "shape3 (length xs) (length ys) (length zs) ?R"
    by (rule wavefunction_step_shape [OF shape3_zeros3])
  have inner: "fold (?S i j) [0..<d3] ?R = ?R"
    if "i < d1" "j < d2" "i \<noteq> 0 \<or> j \<noteq> 0" for i j
  proof (rule fold_unchanged)
    fix k assume "k \<in> set [0..<d3]"
    then have "amp i j k = 0" using that z [of i j k] by auto
    then show "?S i j k ?R = ?R" by (rule wavefunction_step_zero [OF R])
  qed
  have inner0: "fold (?S 0 0) [0..<d3] ?Z = ?R"
  proof -
    have "fold (?S 0 0) [Suc 0..<d3] ?R = ?R"
    proof (rule fold_unchanged)
      fix k assume "k \<in> set [Suc 0..<d3]"
      then have "amp 0 0 k = 0" using d z [of 0 0 k] by auto
      then show "?S 0 0 k ?R = ?R" by (rule wavefunction_step_zero [OF R])
    qed
    then show ?thesis using d(3) by (simp add: upt_conv_Cons)
  qed
  have middle0: "fold (\<lambda>j. fold (?S 0 j) [0..<d3]) [0..<d2] ?Z = ?R"
  proof -
    have "fold (\<lambda>j. fold (?S 0 j) [0..<d3]) [Suc 0..<d2] ?R = ?R"
    proof (rule fold_unchanged)
      fix j assume "j \<in> set [Suc 0..<d2]"
      then show "fold (?S 0 j) [0..<d3] ?R = ?R" using d by (intro inner) auto
    qed
    then show ?thesis using d(2) inner0 by (simp add: upt_conv_Cons)
  qed
  have middle: "fold (\<lambda>j. fold (?S i j) [0..<d3]) [0..<d2] ?R = ?R"
    if "i < d1" "i \<noteq> 0" for i
  proof (rule fold_unchanged)
    fix j assume "j \<in> set [0..<d2]"
    then show "fold (?S i j) [0..<d3] ?R = ?R" using that by (intro inner) auto
  qed
  have "fold (\<lambda>i. fold (\<lambda>j. fold (?S i j) [0..<d3]) [0..<d2]) [Suc 0..<d1] ?R = ?R"
  proof (rule fold_unchanged)
    fix i assume "i \<in> set [Suc 0..<d1]"
    then show "fold (\<lambda>j. fold (?S i j) [0..<d3]) [0..<d2] ?R = ?R" by (intro middle) auto
  qed
  then show ?thesis using d(1) middle0 by (simp add: upt_conv_Cons)
qed

lemma wavefunction_first_step:
  assumes "amp 0 0 0 = 1"
  shows "wavefunction_step ext p amp xs ys zs 0 0 0 (zeros3 (length xs) (length ys) (length zs))
         = map (\<lambda>phi. map (\<lambda>zeta. map (\<lambda>theta.
               complex_of_real (harm_osc_wavefunction ext 0 phi (phi_osc p))
               * complex_of_real (harm_osc_wavefunction ext 0 zeta (zeta_osc p))
               * (exp (- \<i> * of_int (- ncut p) * complex_of_real theta)
                    / complex_of_real (sqrt (2 * pi)))) zs) ys) xs"
proof (rule array3_eqI [OF wavefunction_step_shape [OF shape3_zeros3]])
  show "shape3 (length xs) (length ys) (length zs)
     (map (\<lambda>phi. map (\<lambda>zeta. map (\<lambda>theta.
               complex_of_real (harm_osc_wavefunction ext 0 phi (phi_osc p))
               * complex_of_real (harm_osc_wavefunction ext 0 zeta (zeta_osc p))
               * (exp (- \<i> * of_int (- ncut p) * complex_of_real theta)
                    / complex_of_real (sqrt (2 * pi)))) zs) ys) xs)"
    by (simp add: shape3_def)
  fix a b c assume abc: "a < length xs" "b < length ys" "c < length zs"
  have h: "(2 * pi) powr (1 / 2) = sqrt (2 * pi)"
    by (rule powr_half_sqrt) simp
  show "wavefunction_step ext p amp xs ys zs 0 0 0 (zeros3 (length xs) (length ys) (length zs))
          ! a ! b ! c
        = map (\<lambda>phi. map (\<lambda>zeta. map (\<lambda>theta.
               complex_of_real (harm_osc_wavefunction ext 0 phi (phi_osc p))
               * complex_of_real (harm_osc_wavefunction ext 0 zeta (zeta_osc p))
               * (exp (- \<i> * of_int (- ncut p) * complex_of_real theta)
                    / complex_of_real (sqrt (2 * pi)))) zs) ys) xs ! a ! b ! c"
    using abc assms
    by (simp add: wavefunction_step_nth [OF shape3_zeros3 abc] nth_zeros3 h)
qed

text \<open>
  C9. For a valid parameter set and a supplied eigensystem whose column \<open>which\<close> is the
  basis vector with amplitude 1 at the basis index triple \<open>(0, 0, 0)\<close> and 0 elsewhere,
  \<open>wavefunction\<close> returns, and its amplitude at every grid point \<open>(\<phi>, \<zeta>, \<theta>)\<close> is
  \<open>HO(0, \<phi>, phi_osc) * HO(0, \<zeta>, zeta_osc) * exp(- i (- ncut) \<theta>) / sqrt(2 \<pi>)\<close>, the single
  product term of the two oscillator ground states and the plane wave of charge \<open>- ncut\<close>.
\<close>

theorem wavefunction_single_basis_state:
  assumes v: "valid_params p"
    and w: "which < ncols evecs"
    and n: "nrows evecs = nat (priv_dim_phi p) * nat (priv_dim_zeta p) * nat (priv_dim_theta p)"
    and one: "entry evecs 0 which = 1"
    and zero: "\<forall>n. 0 < n \<and> n < nrows evecs \<longrightarrow> entry evecs n which = 0"
  shows "\<exists>wf. wavefunction ext p (Some (evals, evecs)) which phi_grid zeta_grid theta_grid = Inr wf
     \<and> amplitudes wf
         = map (\<lambda>phi. map (\<lambda>zeta. map (\<lambda>theta.
               complex_of_real (harm_osc_wavefunction ext 0 phi (phi_osc p))
               * complex_of_real (harm_osc_wavefunction ext 0 zeta (zeta_osc p))
               * (exp (- \<i> * of_int (- ncut p) * complex_of_real theta)
                    / complex_of_real (sqrt (2 * pi))))
             (make_linspace (case theta_grid of None \<Rightarrow> priv_default_theta_grid | Some g \<Rightarrow> g)))
             (make_linspace (case zeta_grid of None \<Rightarrow> priv_default_zeta_grid | Some g \<Rightarrow> g)))
             (make_linspace (case phi_grid of None \<Rightarrow> priv_default_phi_grid | Some g \<Rightarrow> g))"
proof -
  define d1 d2 d3 where "d1 = nat (priv_dim_phi p)" and "d2 = nat (priv_dim_zeta p)"
    and "d3 = nat (priv_dim_theta p)"
  define amp where "amp = (\<lambda>i j k. entry evecs ((i * d2 + j) * d3 + k) which)"
  have d: "0 < d1" "0 < d2" "0 < d3"
    using v by (simp_all add: d1_def d2_def d3_def valid_params_def priv_dim_phi_def
        priv_dim_zeta_def priv_dim_theta_def)
  have a0: "amp 0 0 0 = 1" using one by (simp add: amp_def)
  have az: "amp i j k = 0" if "i < d1" "j < d2" "k < d3" "i \<noteq> 0 \<or> j \<noteq> 0 \<or> k \<noteq> 0" for i j k
  proof -
    have "(i * d2 + j) * d3 + k < nrows evecs"
      using idx_bound [OF that(1-3)] n by (simp add: d1_def d2_def d3_def)
    moreover have "0 < (i * d2 + j) * d3 + k"
      by (rule idx_pos [OF d(2,3) that(4)])
    ultimately show ?thesis using zero by (simp add: amp_def)
  qed
  note loop = wavefunction_loop [OF d az, where ext = ext and p = p
      and xs = "make_linspace (case phi_grid of None \<Rightarrow> priv_default_phi_grid | Some g \<Rightarrow> g)"
      and ys = "make_linspace (case zeta_grid of None \<Rightarrow> priv_default_zeta_grid | Some g \<Rightarrow> g)"
      and zs = "make_linspace (case theta_grid of None \<Rightarrow> priv_default_theta_grid | Some g \<Rightarrow> g)",
      simplified]
  show ?thesis
    using w n loop wavefunction_first_step [where amp = amp and ext = ext and p = p
      and xs = "make_linspace (case phi_grid of None \<Rightarrow> priv_default_phi_grid | Some g \<Rightarrow> g)"
      and ys = "make_linspace (case zeta_grid of None \<Rightarrow> priv_default_zeta_grid | Some g \<Rightarrow> g)"
      and zs = "make_linspace (case theta_grid of None \<Rightarrow> priv_default_theta_grid | Some g \<Rightarrow> g)",
      OF a0, simplified]
    by (simp add: wavefunction_def Let_def d1_def d2_def d3_def amp_def)
qed

theorem wavefunction_single_basis_state_witness:
  "valid_params default_params
   \<and> 0 < ncols (mk_mat 3150 1 (\<lambda>i j. if i = 0 then 1 else 0))
   \<and> nrows (mk_mat 3150 1 (\<lambda>i j. if i = 0 then 1 else 0))
       = nat (priv_dim_phi default_params) * nat (priv_dim_zeta default_params)
           * nat (priv_dim_theta default_params)
   \<and> entry (mk_mat 3150 1 (\<lambda>i j. if i = 0 then 1 else 0)) 0 0 = 1
   \<and> entry (mk_mat 3150 1 (\<lambda>i j. if i = 0 then 1 else 0)) 1 0 = 0
   \<and> (\<exists>wf. wavefunction sample_collaborators default_params
              (Some ([], mk_mat 3150 1 (\<lambda>i j. if i = 0 then 1 else 0))) 0 None None None = Inr wf
          \<and> amplitudes wf
              = map (\<lambda>phi. map (\<lambda>zeta. map (\<lambda>theta.
                    complex_of_real (harm_osc_wavefunction sample_collaborators 0 phi
                                       (phi_osc default_params))
                    * complex_of_real (harm_osc_wavefunction sample_collaborators 0 zeta
                                         (zeta_osc default_params))
                    * (exp (- \<i> * of_int (- ncut default_params) * complex_of_real theta)
                         / complex_of_real (sqrt (2 * pi))))
                  (make_linspace priv_default_theta_grid))
                  (make_linspace priv_default_zeta_grid))
                  (make_linspace priv_default_phi_grid))"
proof -
  let ?E = "mk_mat 3150 1 (\<lambda>i j. if i = 0 then 1 else 0)"
  have w: "0 < ncols ?E" by simp
  have n: "nrows ?E = nat (priv_dim_phi default_params) * nat (priv_dim_zeta default_params)
             * nat (priv_dim_theta default_params)"
    by (simp add: priv_dim_phi_def priv_dim_zeta_def priv_dim_theta_def default_params_def)
  have one: "entry ?E 0 0 = 1" by (simp add: entry_mk_mat)
  have zero: "\<forall>n. 0 < n \<and> n < nrows ?E \<longrightarrow> entry ?E n 0 = 0" by (simp add: entry_mk_mat)
  have z1: "entry ?E 1 0 = 0" by (simp add: entry_mk_mat)
  from wavefunction_single_basis_state [OF valid_default_params w n one zero,
      where ext = sample_collaborators and evals = "[]" and phi_grid = None
        and zeta_grid = None and theta_grid = None]
  show ?thesis using valid_default_params w n one z1 by simp
qed

end
